theory Spec2Isabelle
  imports Main "HOL-Library.Char_ord" "HOL-Library.List_Lexorder"
begin

section \<open>Python dictionaries\<close>

text \<open>
  A Python \<open>dict\<close> keeps its keys in insertion order; assigning to a key that is present
  replaces the value where it stands, assigning to an absent key appends it, and deleting
  a key removes its entry.  A dictionary is an association list with these three operations.
\<close>

fun dictGet :: "('k \<times> 'v) list \<Rightarrow> 'k \<Rightarrow> 'v option" where
  "dictGet [] k = None"
| "dictGet ((k', v) # d) k = (if k' = k then Some v else dictGet d k)"

fun dictSet :: "('k \<times> 'v) list \<Rightarrow> 'k \<Rightarrow> 'v \<Rightarrow> ('k \<times> 'v) list" where
  "dictSet [] k v = [(k, v)]"
| "dictSet ((k', v') # d) k v = (if k' = k then (k', v) # d else (k', v') # dictSet d k v)"

fun dictDel :: "('k \<times> 'v) list \<Rightarrow> 'k \<Rightarrow> ('k \<times> 'v) list" where
  "dictDel [] k = []"
| "dictDel ((k', v') # d) k = (if k' = k then dictDel d k else (k', v') # dictDel d k)"

definition dictKeys :: "('k \<times> 'v) list \<Rightarrow> 'k list" where
  "dictKeys d = map fst d"

section \<open>Exceptions\<close>

datatype exn =
    AttributeError
  | TypeError
  | KeyError string
  | AssertionError
  | StopIteration
  | IndexError
  | ValueError
  | RecursionError
  | BackendError string

section \<open>Patterns\<close>

text \<open>
  A pattern is a dictionary from a key to either a nested pattern or \<open>None\<close> (the
  sentinel of a leaf).
\<close>

datatype pattern = Pattern (items: "(string \<times> pattern option) list")

text \<open>
  Modelled from the spec: \<open>patternFromPath\<close>, \<open>patternUnion\<close>, \<open>patternDifference\<close> and
  \<open>patternIntersect\<close> live in the module \<open>changes\<close>, which is imported by
  \<open>fonthandler.py\<close> but is not among the sources.  The spec describes them as the
  conversion of a path to the pattern holding that path, and as the union, difference
  and intersection of patterns read as sets of paths.
\<close>

fun patternFromPath :: "string list \<Rightarrow> pattern" where
  "patternFromPath [] = Pattern []"
| "patternFromPath [k] = Pattern [(k, None)]"
| "patternFromPath (k # ks) = Pattern [(k, Some (patternFromPath ks))]"

fun patternUnion :: "pattern \<Rightarrow> pattern \<Rightarrow> pattern" where
  "patternUnion (Pattern a) (Pattern b) =
     Pattern (fold (\<lambda>(key, valueB) result.
        (case dictGet a key of
           None \<Rightarrow> dictSet result key valueB
         | Some valueA \<Rightarrow>
            (case (valueA, valueB) of
               (Some pa, Some pb) \<Rightarrow> dictSet result key (Some (patternUnion pa pb))
             | _ \<Rightarrow> dictSet result key None))) b a)"

fun patternDifference :: "pattern \<Rightarrow> pattern \<Rightarrow> pattern" where
  "patternDifference (Pattern a) (Pattern b) =
     Pattern (fold (\<lambda>(key, valueB) result.
        (case dictGet a key of
           None \<Rightarrow> result
         | Some valueA \<Rightarrow>
            (case valueB of
               None \<Rightarrow> dictDel result key
             | Some pb \<Rightarrow>
                (case valueA of
                   None \<Rightarrow> result
                 | Some pa \<Rightarrow>
                    (if items (patternDifference pa pb) = [] then dictDel result key
                     else dictSet result key (Some (patternDifference pa pb))))))) b a)"

fun patternIntersect :: "pattern \<Rightarrow> pattern \<Rightarrow> pattern" where
  "patternIntersect (Pattern a) (Pattern b) =
     Pattern (fold (\<lambda>(key, valueA) result.
        (case dictGet b key of
           None \<Rightarrow> result
         | Some valueB \<Rightarrow>
            (case valueA of
               None \<Rightarrow> dictSet result key valueB
             | Some pa \<Rightarrow>
                (case valueB of
                   None \<Rightarrow> dictSet result key valueA
                 | Some pb \<Rightarrow>
                    (if items (patternIntersect pa pb) = [] then result
                     else dictSet result key (Some (patternIntersect pa pb))))))) a [])"

text \<open>
  Modelled from the spec: a pattern contains a path iff walking the path through the
  pattern terminates at a sentinel or at an empty mapping.
\<close>

fun patternContains :: "pattern \<Rightarrow> string list \<Rightarrow> bool" where
  "patternContains p [] = False"
| "patternContains p (k # ks) =
     (case dictGet (items p) k of
        None \<Rightarrow> False
      | Some None \<Rightarrow> True
      | Some (Some q) \<Rightarrow> (if items q = [] then True else patternContains q ks))"

section \<open>Data keys\<close>

text \<open>
  A key of the cache and of the write queue is either a root key (a \<open>str\<close>) or the tuple
  \<open>("glyphs", glyphName)\<close>.
\<close>

datatype dataKey = RootKey string | GlyphKey string

fun keyPath :: "dataKey \<Rightarrow> string list" where
  "keyPath (RootKey rootKey) = [rootKey]"
| "keyPath (GlyphKey glyphName) = [''glyphs'', glyphName]"

definition writeKeyToPattern :: "dataKey \<Rightarrow> pattern" where
  "writeKeyToPattern writeKey = patternFromPath (keyPath writeKey)"

section \<open>The LRU cache\<close>

text \<open>
  Modelled from the spec: the class \<open>LRUCache\<close> (module \<open>lrucache\<close>) is not among the
  sources.  The spec describes a bounded mapping from data key to value in which an
  access refreshes recency and an insertion above capacity drops the least recently used
  entry; \<open>remove\<close> is idempotent.  The entries are kept least recently used first.
\<close>

record 'v lruCache =
  entries :: "(dataKey \<times> 'v) list"
  maxSize :: nat

definition lruGetItem :: "'v lruCache \<Rightarrow> dataKey \<Rightarrow> (exn + 'v) \<times> 'v lruCache" where
  "lruGetItem c key =
     (case dictGet (entries c) key of
        None \<Rightarrow> (Inl (KeyError (concat (keyPath key))), c)
      | Some value \<Rightarrow> (Inr value, c\<lparr>entries := dictDel (entries c) key @ [(key, value)]\<rparr>))"

definition lruSetItem :: "'v lruCache \<Rightarrow> dataKey \<Rightarrow> 'v \<Rightarrow> 'v lruCache" where
  "lruSetItem c key value =
     (if dictGet (entries c) key \<noteq> None
      then c\<lparr>entries := dictDel (entries c) key @ [(key, value)]\<rparr>
      else if length (entries c) \<ge> maxSize c
      then c\<lparr>entries := tl (entries c) @ [(key, value)]\<rparr>
      else c\<lparr>entries := entries c @ [(key, value)]\<rparr>)"

definition lruPop :: "'v lruCache \<Rightarrow> dataKey \<Rightarrow> 'v lruCache" where
  "lruPop c key = c\<lparr>entries := dictDel (entries c) key\<rparr>"

section \<open>Values and the object store\<close>

text \<open>
  The cached values are Python objects that edits mutate in place, and the same object
  can be reached from the cache, from a root object under construction and from a queued
  write.  A value is therefore \<open>None\<close>, an immutable scalar or a reference into a store
  of objects; an object is an instance with attributes, a dictionary or a list, whose
  members are values again.
\<close>

datatype pyval = PyNone | PyInt int | PyStr string | PyRef nat

datatype pyobj =
    PyObject "(string \<times> pyval) list"
  | PyDict "(string \<times> pyval) list"
  | PyList "pyval list"

type_synonym store = "pyobj list"

section \<open>Connections and the calls made on their proxies\<close>

datatype connection = Connection (connId: nat) (clientUUID: string)

datatype 'c proxyCall =
    ExternalChange connection 'c bool
  | ReloadData connection pattern
  | MessageFromServer connection string string

definition CHANGES_PATTERN_KEY :: string where
  "CHANGES_PATTERN_KEY = ''changes-match-pattern''"

definition LIVE_CHANGES_PATTERN_KEY :: string where
  "LIVE_CHANGES_PATTERN_KEY = ''live-changes-match-pattern''"

datatype logRecord =
    LogWrite dataKey
  | LogWriteError exn
  | LogBroadcastReload nat pattern
  | LogWatcherError exn

section \<open>Write thunks\<close>

text \<open>
  The thunks that \<open>_updateLocalData\<close> builds with \<open>functools.partial\<close>: the callee and
  its bound arguments.
\<close>

datatype writeFunc =
    PutGlyph string pyval pyval
  | DeleteGlyph string
  | PutData string pyval

section \<open>The font handler\<close>

text \<open>
  The fields of \<open>FontHandler\<close>.  \<open>dataScheduledForWriting\<close> is \<open>None\<close> once the write
  task is done.  \<open>proxyCalls\<close> records, oldest first, the calls issued on the proxies of
  the connections; \<open>logged\<close> records what is passed to \<open>logger\<close>; \<open>store\<close> holds
  the Python objects.
\<close>

record ('b, 'c) fontHandler =
  backend :: 'b
  readOnly :: bool
  dummyEditor :: bool
  connections :: "connection list"
  glyphUsedBy :: "string \<rightharpoonup> string list"
  glyphMadeOf :: "string \<rightharpoonup> string list"
  clientData :: "string \<Rightarrow> (string \<times> pattern) list"
  localData :: "pyval lruCache"
  dataScheduledForWriting :: "(dataKey \<times> writeFunc \<times> connection option) list option"
  processWritesError :: "exn option"
  processWritesEvent :: bool
  writingInProgressEvent :: bool
  store :: store
  proxyCalls :: "'c proxyCall list"
  logged :: "logRecord list"

definition getClientData ::
  "('b, 'c) fontHandler \<Rightarrow> connection \<Rightarrow> string \<Rightarrow> pattern \<Rightarrow> pattern" where
  "getClientData self connection key dflt =
     (case dictGet (clientData self (clientUUID connection)) key of
        None \<Rightarrow> dflt
      | Some value \<Rightarrow> value)"

definition setClientData ::
  "('b, 'c) fontHandler \<Rightarrow> connection \<Rightarrow> string \<Rightarrow> pattern \<Rightarrow> ('b, 'c) fontHandler" where
  "setClientData self connection key value =
     self\<lparr>clientData := (clientData self)
       (clientUUID connection := dictSet (clientData self (clientUUID connection)) key value)\<rparr>"

definition getCombinedSubscribePattern :: "('b, 'c) fontHandler \<Rightarrow> connection \<Rightarrow> pattern" where
  "getCombinedSubscribePattern self connection =
     patternUnion (getClientData self connection LIVE_CHANGES_PATTERN_KEY (Pattern []))
                  (getClientData self connection CHANGES_PATTERN_KEY (Pattern []))"

subsection \<open>reloadData\<close>

text \<open>
  The first loop of \<open>reloadData\<close> drops cache entries.  Iterating the value of the root
  key \<open>"glyphs"\<close> raises \<open>TypeError\<close> when that value is \<open>None\<close>; the entries dropped
  before that stay dropped.
\<close>

fun dropLocalData ::
  "(string \<times> pattern option) list \<Rightarrow> pyval lruCache \<Rightarrow> (exn + unit) \<times> pyval lruCache" where
  "dropLocalData [] c = (Inr (), c)"
| "dropLocalData ((rootKey, value) # rest) c =
     (if rootKey = ''glyphs'' then
        (case value of
           None \<Rightarrow> (Inl TypeError, c)
         | Some sub \<Rightarrow>
             dropLocalData rest
               (fold (\<lambda>glyphName c'. lruPop c' (GlyphKey glyphName)) (dictKeys (items sub)) c))
      else dropLocalData rest (lruPop c (RootKey rootKey)))"

definition reloadData ::
  "('b, 'c) fontHandler \<Rightarrow> pattern \<Rightarrow> (exn + unit) \<times> ('b, 'c) fontHandler" where
  "reloadData self reloadPattern =
     (case dropLocalData (items reloadPattern) (localData self) of
        (Inl e, c) \<Rightarrow> (Inl e, self\<lparr>localData := c\<rparr>)
      | (Inr _, c) \<Rightarrow>
          (let self1 = self\<lparr>localData := c\<rparr>;
               conns = concat (map (\<lambda>connection.
                   (let connReloadPattern =
                          patternIntersect (getCombinedSubscribePattern self1 connection)
                                           reloadPattern
                    in if items connReloadPattern \<noteq> [] then [(connection, connReloadPattern)]
                       else []))
                 (connections self1))
           in if conns = [] then (Inr (), self1)
              else (Inr (), self1\<lparr>
                 logged := logged self1 @ [LogBroadcastReload (length conns) reloadPattern],
                 proxyCalls := proxyCalls self1 @
                   map (\<lambda>(connection, connReloadPattern). ReloadData connection connReloadPattern)
                     conns\<rparr>)))"

subsection \<open>The write queue\<close>

definition popFirstItem :: "('k \<times> 'v) list \<Rightarrow> exn + (('k \<times> 'v) \<times> ('k \<times> 'v) list)" where
  "popFirstItem d = (case d of [] \<Rightarrow> Inl StopIteration | (key, v) # rest \<Rightarrow> Inr ((key, v), rest))"

definition scheduleDataWrite ::
  "('b, 'c) fontHandler \<Rightarrow> dataKey \<Rightarrow> writeFunc \<Rightarrow> connection option
     \<Rightarrow> (exn + unit) \<times> ('b, 'c) fontHandler" where
  "scheduleDataWrite self writeKey writeFunc connection =
     (case dataScheduledForWriting self of
        None \<Rightarrow>
          (case reloadData self (writeKeyToPattern writeKey) of
             (Inl e, self1) \<Rightarrow> (Inl e, self1)
           | (Inr _, self1) \<Rightarrow>
               (case connection of
                  None \<Rightarrow> (Inl AttributeError, self1)
                | Some conn \<Rightarrow>
                    (Inr (), self1\<lparr>proxyCalls := proxyCalls self1 @
                       [MessageFromServer conn ''The data could not be saved.''
                          (''The edit has been reverted.'' @ [CHR 0x0A, CHR 0x0A] @
                           ''The Fontra server got itself into trouble, please contact an admin.'')]\<rparr>)))
      | Some queue \<Rightarrow>
          (let shouldSignal = (queue = []);
               self1 = self\<lparr>dataScheduledForWriting :=
                          Some (dictSet queue writeKey (writeFunc, connection))\<rparr>
           in (Inr (),
               if shouldSignal
               then self1\<lparr>processWritesEvent := True, writingInProgressEvent := False\<rparr>
               else self1)))"

subsection \<open>broadcastChange\<close>

text \<open>
  \<open>matchChangePattern\<close> belongs to the module \<open>changes\<close>, which is not among the sources;
  it is a parameter.  Every call handed to \<open>scheduleTaskAndLogException\<close> is recorded in
  \<open>proxyCalls\<close>.
\<close>

definition broadcastTargets ::
  "('c \<Rightarrow> pattern \<Rightarrow> bool) \<Rightarrow> ('b, 'c) fontHandler \<Rightarrow> 'c \<Rightarrow> connection option \<Rightarrow> bool
     \<Rightarrow> connection list" where
  "broadcastTargets matchChangePattern self change sourceConnection isLiveChange =
     (let matchPatternKeys =
            (if isLiveChange then [LIVE_CHANGES_PATTERN_KEY]
             else [LIVE_CHANGES_PATTERN_KEY, CHANGES_PATTERN_KEY])
      in filter (\<lambda>connection.
           Some connection \<noteq> sourceConnection \<and>
           list_ex (\<lambda>k. matchChangePattern change (getClientData self connection k (Pattern [])))
             matchPatternKeys)
         (connections self))"

definition broadcastChange ::
  "('c \<Rightarrow> pattern \<Rightarrow> bool) \<Rightarrow> ('b, 'c) fontHandler \<Rightarrow> 'c \<Rightarrow> connection option \<Rightarrow> bool
     \<Rightarrow> ('b, 'c) fontHandler" where
  "broadcastChange matchChangePattern self change sourceConnection isLiveChange =
     self\<lparr>proxyCalls := proxyCalls self @
       map (\<lambda>connection. ExternalChange connection change isLiveChange)
         (broadcastTargets matchChangePattern self change sourceConnection isLiveChange)\<rparr>"

subsection \<open>The backend\<close>

text \<open>
  The backend is an object behind the protocols of the module \<open>protocols\<close>; its
  implementations are not among the sources.  Its methods are parameters: each takes the
  backend's state and the object store and returns a value or raises.  \<open>writable\<close> is
  \<open>isinstance(self.backend, WritableFontBackend)\<close>.
\<close>

type_synonym ('b, 'r) backendCall = "'b \<times> store \<Rightarrow> (exn + 'r) \<times> 'b \<times> store"

record 'b backendOps =
  writable :: bool
  getGlyphB :: "string \<Rightarrow> ('b, pyval) backendCall"
  getGlobalAxes :: "('b, pyval) backendCall"
  getGlyphMap :: "('b, pyval) backendCall"
  getCustomData :: "('b, pyval) backendCall"
  getUnitsPerEm :: "('b, pyval) backendCall"
  putGlyph :: "string \<Rightarrow> pyval \<Rightarrow> pyval \<Rightarrow> ('b, unit) backendCall"
  deleteGlyph :: "string \<Rightarrow> ('b, unit) backendCall"
  putGlobalAxes :: "pyval \<Rightarrow> ('b, unit) backendCall"
  putGlyphMap :: "pyval \<Rightarrow> ('b, unit) backendCall"
  putCustomData :: "pyval \<Rightarrow> ('b, unit) backendCall"
  putUnitsPerEm :: "pyval \<Rightarrow> ('b, unit) backendCall"

definition putData :: "'b backendOps \<Rightarrow> string \<Rightarrow> pyval \<Rightarrow> ('b, unit) backendCall" where
  "putData B key value w =
     (if \<not> writable B then (Inl AssertionError, w)
      else if key = ''axes'' then putGlobalAxes B value w
      else if key = ''glyphMap'' then putGlyphMap B value w
      else if key = ''customData'' then putCustomData B value w
      else if key = ''unitsPerEm'' then putUnitsPerEm B value w
      else (Inl (KeyError key), w))"

fun callWriteFunc :: "'b backendOps \<Rightarrow> writeFunc \<Rightarrow> ('b, unit) backendCall" where
  "callWriteFunc B (PutGlyph glyphName glyph codePoints) w = putGlyph B glyphName glyph codePoints w"
| "callWriteFunc B (DeleteGlyph glyphName) w = deleteGlyph B glyphName w"
| "callWriteFunc B (PutData key value) w = putData B key value w"

subsection \<open>The write task\<close>

fun reprExn :: "exn \<Rightarrow> string" where
  "reprExn AttributeError = ''AttributeError()''"
| "reprExn TypeError = ''TypeError()''"
| "reprExn (KeyError k) = ''KeyError('' @ k @ '')''"
| "reprExn AssertionError = ''AssertionError()''"
| "reprExn StopIteration = ''StopIteration()''"
| "reprExn IndexError = ''IndexError()''"
| "reprExn ValueError = ''ValueError()''"
| "reprExn RecursionError = ''RecursionError()''"
| "reprExn (BackendError m) = ''Exception('' @ m @ '')''"

definition pendingWrites ::
  "('b, 'c) fontHandler \<Rightarrow> (dataKey \<times> writeFunc \<times> connection option) list" where
  "pendingWrites self = (case dataScheduledForWriting self of None \<Rightarrow> [] | Some queue \<Rightarrow> queue)"

function processWritesOneCycle ::
  "'b backendOps \<Rightarrow> ('b, 'c) fontHandler \<Rightarrow> (exn + unit) \<times> ('b, 'c) fontHandler" where
  "processWritesOneCycle B self =
     (case dataScheduledForWriting self of
        None \<Rightarrow> (Inr (), self)
      | Some queue \<Rightarrow>
         (case popFirstItem queue of
            Inl _ \<Rightarrow> (Inr (), self)
          | Inr ((writeKey, writeFunc, connection), rest) \<Rightarrow>
             (let self1 = self\<lparr>dataScheduledForWriting := Some rest\<rparr>;
                  reloadPattern = writeKeyToPattern writeKey;
                  self2 = self1\<lparr>logged := logged self1 @ [LogWrite writeKey]\<rparr>
              in case callWriteFunc B writeFunc (backend self2, store self2) of
                   (Inr _, b, h) \<Rightarrow> processWritesOneCycle B (self2\<lparr>backend := b, store := h\<rparr>)
                 | (Inl e, b, h) \<Rightarrow>
                    (let self3 = self2\<lparr>backend := b, store := h,
                                       logged := logged self2 @ [LogWriteError e]\<rparr>
                     in case reloadData self3 reloadPattern of
                          (Inl e', self4) \<Rightarrow> (Inl e', self4)
                        | (Inr _, self4) \<Rightarrow>
                           (case connection of
                              Some conn \<Rightarrow>
                                processWritesOneCycle B (self4\<lparr>proxyCalls := proxyCalls self4 @
                                  [MessageFromServer conn
                                     ''The data could not be saved due to an error.''
                                     (''The edit has been reverted.'' @ [CHR 0x0A, CHR 0x0A] @
                                      reprExn e)]\<rparr>)
                            | None \<Rightarrow> (Inl e, self4))))))"
  by pat_completeness auto
termination
  apply (relation "measure (\<lambda>(B, self). length (pendingWrites self))")
    apply simp
   apply (auto simp: pendingWrites_def popFirstItem_def split: list.splits)[1]
  apply (auto simp: pendingWrites_def popFirstItem_def reloadData_def Let_def
              split: list.splits prod.splits sum.splits if_splits)
  done

declare processWritesOneCycle.simps [simp del]

definition processWritesTaskDone :: "('b, 'c) fontHandler \<Rightarrow> ('b, 'c) fontHandler" where
  "processWritesTaskDone self = self\<lparr>dataScheduledForWriting := None\<rparr>"

text \<open>
  \<open>processWrites\<close> loops forever around a wait for \<open>_processWritesEvent\<close>.  The model
  runs the task from where it stands until it is suspended at that wait (the result
  \<open>None\<close>) or ends by raising (the result \<open>Some e\<close>): when the event is not set the task
  stays suspended; when it is set one cycle runs, and as the \<open>finally\<close> clause clears the
  event, the next wait suspends the task at once.  A task that ends runs its done callback.
\<close>

definition processWrites ::
  "'b backendOps \<Rightarrow> ('b, 'c) fontHandler \<Rightarrow> exn option \<times> ('b, 'c) fontHandler" where
  "processWrites B self =
     (if \<not> processWritesEvent self then (None, self)
      else
        (case processWritesOneCycle B self of
           (Inl e, self1) \<Rightarrow>
             (Some e, processWritesTaskDone
                (self1\<lparr>processWritesError := Some e,
                       processWritesEvent := False, writingInProgressEvent := True\<rparr>))
         | (Inr _, self1) \<Rightarrow>
             (None, self1\<lparr>processWritesEvent := False, writingInProgressEvent := True\<rparr>)))"


subsection \<open>Remote methods without effect on the cache\<close>

definition isReadOnly :: "('b, 'c) fontHandler \<Rightarrow> bool" where
  "isReadOnly self = (readOnly self \<and> \<not> dummyEditor self)"

definition adjustMatchPattern ::
  "(pattern \<Rightarrow> pattern \<Rightarrow> pattern) \<Rightarrow> ('b, 'c) fontHandler \<Rightarrow> pattern \<Rightarrow> bool \<Rightarrow> connection
     \<Rightarrow> ('b, 'c) fontHandler" where
  "adjustMatchPattern func self pathOrPattern wantLiveChanges connection =
     (let key = (if wantLiveChanges then LIVE_CHANGES_PATTERN_KEY else CHANGES_PATTERN_KEY);
          matchPattern = getClientData self connection key (Pattern [])
      in setClientData self connection key (func matchPattern pathOrPattern))"

text \<open>The argument of the two remote methods is a path (a \<open>list\<close>) or a pattern.\<close>

datatype pathOrPattern = IsPath "string list" | IsPattern pattern

fun ensurePattern :: "pathOrPattern \<Rightarrow> pattern" where
  "ensurePattern (IsPath path) = patternFromPath path"
| "ensurePattern (IsPattern p) = p"

definition subscribeChanges ::
  "('b, 'c) fontHandler \<Rightarrow> pathOrPattern \<Rightarrow> bool \<Rightarrow> connection \<Rightarrow> ('b, 'c) fontHandler" where
  "subscribeChanges self pathOrPattern wantLiveChanges connection =
     adjustMatchPattern patternUnion self (ensurePattern pathOrPattern) wantLiveChanges connection"

definition unsubscribeChanges ::
  "('b, 'c) fontHandler \<Rightarrow> pathOrPattern \<Rightarrow> bool \<Rightarrow> connection \<Rightarrow> ('b, 'c) fontHandler" where
  "unsubscribeChanges self pathOrPattern wantLiveChanges connection =
     adjustMatchPattern patternDifference self (ensurePattern pathOrPattern) wantLiveChanges
       connection"

subsection \<open>The dependency tracker\<close>

text \<open>
  Reading an attribute, the values of a dictionary and the members of an iterable from
  the store.  What is not an instance has no attribute; what is not a dictionary has no
  \<open>values()\<close>; iterating a dictionary yields its keys.
\<close>

definition getattrPy :: "store \<Rightarrow> pyval \<Rightarrow> string \<Rightarrow> exn + pyval" where
  "getattrPy h v name =
     (case v of
        PyRef a \<Rightarrow>
          (if a < length h then
             (case h ! a of
                PyObject attrs \<Rightarrow>
                  (case dictGet attrs name of None \<Rightarrow> Inl AttributeError | Some x \<Rightarrow> Inr x)
              | _ \<Rightarrow> Inl AttributeError)
           else Inl AttributeError)
      | _ \<Rightarrow> Inl AttributeError)"

definition valuesPy :: "store \<Rightarrow> pyval \<Rightarrow> exn + pyval list" where
  "valuesPy h v =
     (case v of
        PyRef a \<Rightarrow>
          (if a < length h then
             (case h ! a of PyDict d \<Rightarrow> Inr (map snd d) | _ \<Rightarrow> Inl AttributeError)
           else Inl AttributeError)
      | _ \<Rightarrow> Inl AttributeError)"

definition iterPy :: "store \<Rightarrow> pyval \<Rightarrow> exn + pyval list" where
  "iterPy h v =
     (case v of
        PyRef a \<Rightarrow>
          (if a < length h then
             (case h ! a of
                PyList xs \<Rightarrow> Inr xs
              | PyDict d \<Rightarrow> Inr (map (\<lambda>(k, _). PyStr k) d)
              | _ \<Rightarrow> Inl TypeError)
           else Inl TypeError)
      | _ \<Rightarrow> Inl TypeError)"

fun mapE :: "('a \<Rightarrow> exn + 'b) \<Rightarrow> 'a list \<Rightarrow> exn + 'b list" where
  "mapE f [] = Inr []"
| "mapE f (x # xs) =
     (case f x of
        Inl e \<Rightarrow> Inl e
      | Inr y \<Rightarrow> (case mapE f xs of Inl e \<Rightarrow> Inl e | Inr ys \<Rightarrow> Inr (y # ys)))"

text \<open>
  \<open>_iterAllComponentNames\<close>: the names \<open>compo.name\<close> of the components of
  \<open>layer.glyph.components\<close>, for the layers of \<open>glyph.layers.values()\<close>, in that order.
  A component name is a \<open>str\<close> (the classes of the module \<open>classes\<close> declare it so).
\<close>

definition componentNamesOfLayer :: "store \<Rightarrow> pyval \<Rightarrow> exn + string list" where
  "componentNamesOfLayer h layer =
     (case getattrPy h layer ''glyph'' of
        Inl e \<Rightarrow> Inl e
      | Inr g \<Rightarrow>
         (case getattrPy h g ''components'' of
            Inl e \<Rightarrow> Inl e
          | Inr cs \<Rightarrow>
             (case iterPy h cs of
                Inl e \<Rightarrow> Inl e
              | Inr compos \<Rightarrow>
                  mapE (\<lambda>compo.
                    (case getattrPy h compo ''name'' of
                       Inl e \<Rightarrow> Inl e
                     | Inr (PyStr name) \<Rightarrow> Inr name
                     | Inr _ \<Rightarrow> Inl TypeError)) compos)))"

definition iterAllComponentNames :: "store \<Rightarrow> pyval \<Rightarrow> exn + string list" where
  "iterAllComponentNames h glyph =
     (case getattrPy h glyph ''layers'' of
        Inl e \<Rightarrow> Inl e
      | Inr ls \<Rightarrow>
         (case valuesPy h ls of
            Inl e \<Rightarrow> Inl e
          | Inr layers \<Rightarrow>
             (case mapE (componentNamesOfLayer h) layers of
                Inl e \<Rightarrow> Inl e
              | Inr namess \<Rightarrow> Inr (concat namess))))"

text \<open>
  A Python \<open>set\<close> of names is a list without repetition: \<open>set(...)\<close> is \<open>remdups\<close>,
  \<open>discard\<close> is \<open>removeAll\<close> and \<open>add\<close> is \<open>List.insert\<close>.
\<close>

definition zapUsedBy ::
  "string \<Rightarrow> string list \<Rightarrow> (string \<rightharpoonup> string list) \<Rightarrow> (string \<rightharpoonup> string list)" where
  "zapUsedBy glyphName componentNames usedBy =
     fold (\<lambda>componentName u.
             (case u componentName of
                None \<Rightarrow> u
              | Some users \<Rightarrow> u(componentName \<mapsto> removeAll glyphName users)))
          componentNames usedBy"

definition addUsedBy ::
  "string \<Rightarrow> string list \<Rightarrow> (string \<rightharpoonup> string list) \<Rightarrow> (string \<rightharpoonup> string list)" where
  "addUsedBy glyphName componentNames usedBy =
     fold (\<lambda>componentName u.
             (let u' = (if u componentName = None then u(componentName \<mapsto> []) else u)
              in (case u' componentName of
                    None \<Rightarrow> u'
                  | Some users \<Rightarrow> u'(componentName \<mapsto> List.insert glyphName users))))
          componentNames usedBy"

definition updateGlyphDependencies ::
  "('b, 'c) fontHandler \<Rightarrow> string \<Rightarrow> pyval \<Rightarrow> (exn + unit) \<times> ('b, 'c) fontHandler" where
  "updateGlyphDependencies self glyphName glyph =
     (let self1 = self\<lparr>glyphUsedBy :=
            zapUsedBy glyphName
              (case glyphMadeOf self glyphName of None \<Rightarrow> [] | Some cs \<Rightarrow> cs)
              (glyphUsedBy self)\<rparr>
      in case iterAllComponentNames (store self1) glyph of
           Inl e \<Rightarrow> (Inl e, self1)
         | Inr names \<Rightarrow>
            (let componentNames = remdups names;
                 self2 = (if componentNames \<noteq> []
                          then self1\<lparr>glyphMadeOf := (glyphMadeOf self1)(glyphName \<mapsto> componentNames)\<rparr>
                          else if glyphMadeOf self1 glyphName \<noteq> None
                          then self1\<lparr>glyphMadeOf := (glyphMadeOf self1)(glyphName := None)\<rparr>
                          else self1)
             in (Inr (), self2\<lparr>glyphUsedBy :=
                   addUsedBy glyphName componentNames (glyphUsedBy self2)\<rparr>)))"

subsection \<open>Cached loads\<close>

definition lruGet :: "'v lruCache \<Rightarrow> dataKey \<Rightarrow> 'v \<Rightarrow> 'v \<times> 'v lruCache" where
  "lruGet c key dflt =
     (case lruGetItem c key of (Inl _, c') \<Rightarrow> (dflt, c') | (Inr value, c') \<Rightarrow> (value, c'))"

definition getGlyphFromBackend ::
  "'b backendOps \<Rightarrow> ('b, 'c) fontHandler \<Rightarrow> string \<Rightarrow> (exn + pyval) \<times> ('b, 'c) fontHandler" where
  "getGlyphFromBackend B self glyphName =
     (case getGlyphB B glyphName (backend self, store self) of
        (Inl e, b, h) \<Rightarrow> (Inl e, self\<lparr>backend := b, store := h\<rparr>)
      | (Inr glyph, b, h) \<Rightarrow>
         (let self1 = self\<lparr>backend := b, store := h\<rparr>
          in if glyph \<noteq> PyNone then
               (case updateGlyphDependencies self1 glyphName glyph of
                  (Inl e, self2) \<Rightarrow> (Inl e, self2)
                | (Inr _, self2) \<Rightarrow> (Inr glyph, self2))
             else (Inr glyph, self1)))"

definition getGlyph ::
  "'b backendOps \<Rightarrow> ('b, 'c) fontHandler \<Rightarrow> string \<Rightarrow> (exn + pyval) \<times> ('b, 'c) fontHandler" where
  "getGlyph B self glyphName =
     (case lruGet (localData self) (GlyphKey glyphName) PyNone of
        (glyph, c) \<Rightarrow>
          (let self1 = self\<lparr>localData := c\<rparr>
           in if glyph = PyNone then
                (case getGlyphFromBackend B self1 glyphName of
                   (Inl e, self2) \<Rightarrow> (Inl e, self2)
                 | (Inr glyph', self2) \<Rightarrow>
                     (Inr glyph',
                      self2\<lparr>localData := lruSetItem (localData self2) (GlyphKey glyphName) glyph'\<rparr>))
              else (Inr glyph, self1)))"

definition getDataFromBackend ::
  "'b backendOps \<Rightarrow> ('b, 'c) fontHandler \<Rightarrow> string \<Rightarrow> (exn + pyval) \<times> ('b, 'c) fontHandler" where
  "getDataFromBackend B self key =
     (if key \<in> {''axes'', ''glyphMap'', ''customData'', ''unitsPerEm''} then
        (case (if key = ''axes'' then getGlobalAxes B
               else if key = ''glyphMap'' then getGlyphMap B
               else if key = ''customData'' then getCustomData B
               else getUnitsPerEm B) (backend self, store self) of
           (r, b, h) \<Rightarrow> (r, self\<lparr>backend := b, store := h\<rparr>))
      else (Inl (KeyError key), self))"

definition getData ::
  "'b backendOps \<Rightarrow> ('b, 'c) fontHandler \<Rightarrow> string \<Rightarrow> (exn + pyval) \<times> ('b, 'c) fontHandler" where
  "getData B self key =
     (case lruGet (localData self) (RootKey key) PyNone of
        (data, c) \<Rightarrow>
          (let self1 = self\<lparr>localData := c\<rparr>
           in if data = PyNone then
                (case getDataFromBackend B self1 key of
                   (Inl e, self2) \<Rightarrow> (Inl e, self2)
                 | (Inr data', self2) \<Rightarrow>
                     (Inr data',
                      self2\<lparr>localData := lruSetItem (localData self2) (RootKey key) data'\<rparr>))
              else (Inr data, self1)))"

subsection \<open>deepcopy\<close>

text \<open>
  \<open>copy.deepcopy\<close> returns \<open>None\<close> and scalars as they are.  For an object it first looks
  the object up in its memo; an object not yet copied gets a new, empty object of the same
  kind, which is entered in the memo before the members are copied in order and put into
  it.  The recursion of \<open>deepcopy\<close> is as deep as the object graph; the model bounds the
  depth by a counter and returns \<open>None\<close> when the counter is used up or a reference
  points outside the store.
\<close>

fun members :: "pyobj \<Rightarrow> pyval list" where
  "members (PyObject attrs) = map snd attrs"
| "members (PyDict d) = map snd d"
| "members (PyList xs) = xs"

fun rebuild :: "pyobj \<Rightarrow> pyval list \<Rightarrow> pyobj" where
  "rebuild (PyObject attrs) vs = PyObject (zip (map fst attrs) vs)"
| "rebuild (PyDict d) vs = PyDict (zip (map fst d) vs)"
| "rebuild (PyList xs) vs = PyList vs"

fun emptyLike :: "pyobj \<Rightarrow> pyobj" where
  "emptyLike (PyObject attrs) = PyObject []"
| "emptyLike (PyDict d) = PyDict []"
| "emptyLike (PyList xs) = PyList []"

fun deepcopyVal ::
  "nat \<Rightarrow> pyval \<Rightarrow> (nat \<times> nat) list \<times> store \<Rightarrow> (pyval \<times> (nat \<times> nat) list \<times> store) option"
and deepcopyVals ::
  "nat \<Rightarrow> pyval list \<Rightarrow> (nat \<times> nat) list \<times> store
     \<Rightarrow> (pyval list \<times> (nat \<times> nat) list \<times> store) option" where
  "deepcopyVal 0 v (memo, h) = None"
| "deepcopyVal (Suc n) (PyRef a) (memo, h) =
     (case dictGet memo a of
        Some y \<Rightarrow> Some (PyRef y, memo, h)
      | None \<Rightarrow>
         (if a < length h then
            (case deepcopyVals n (members (h ! a)) ((a, length h) # memo, h @ [emptyLike (h ! a)]) of
               None \<Rightarrow> None
             | Some (vs, memo', h') \<Rightarrow>
                 Some (PyRef (length h), memo', h'[length h := rebuild (h ! a) vs]))
          else None))"
| "deepcopyVal (Suc n) v (memo, h) = Some (v, memo, h)"
| "deepcopyVals n [] (memo, h) = Some ([], memo, h)"
| "deepcopyVals n (v # vs) (memo, h) =
     (case deepcopyVal n v (memo, h) of
        None \<Rightarrow> None
      | Some (v', memo', h') \<Rightarrow>
         (case deepcopyVals n vs (memo', h') of
            None \<Rightarrow> None
          | Some (vs', memo'', h'') \<Rightarrow> Some (v' # vs', memo'', h'')))"

definition deepcopy :: "store \<Rightarrow> pyval \<Rightarrow> (pyval \<times> store) option" where
  "deepcopy h v =
     (case deepcopyVal (Suc (length h)) v ([], h) of
        None \<Rightarrow> None
      | Some (v', memo, h') \<Rightarrow> Some (v', h'))"

subsection \<open>The change algebra\<close>

text \<open>
  The functions on changes belong to the module \<open>changes\<close>, which is not among the
  sources; they are parameters.  \<open>applyChange\<close> mutates the root object and the objects
  reachable from it in place.
\<close>

record dictSetDelTracker =
  data :: "(string \<times> pyval) list"
  newKeys :: "string list"
  deletedKeys :: "string list"

definition newDictSetDelTracker :: "(string \<times> pyval) list \<Rightarrow> dictSetDelTracker" where
  "newDictSetDelTracker d = \<lparr>data = d, newKeys = [], deletedKeys = []\<rparr>"

definition trackerSetItem :: "dictSetDelTracker \<Rightarrow> string \<Rightarrow> pyval \<Rightarrow> dictSetDelTracker" where
  "trackerSetItem t key value =
     (let isNewItem = (dictGet (data t) key = None);
          t1 = t\<lparr>data := dictSet (data t) key value\<rparr>
      in if isNewItem
         then t1\<lparr>newKeys := List.insert key (newKeys t1),
                 deletedKeys := removeAll key (deletedKeys t1)\<rparr>
         else t1)"

definition trackerDelItem :: "dictSetDelTracker \<Rightarrow> string \<Rightarrow> dictSetDelTracker" where
  "trackerDelItem t key =
     t\<lparr>data := dictDel (data t) key,
       deletedKeys := List.insert key (deletedKeys t),
       newKeys := removeAll key (newKeys t)\<rparr>"

text \<open>
  The root object: an instance of \<open>Font\<close> (module \<open>classes\<close>) with the attributes that
  \<open>_prepareRootObject\<close> or the change set on it, its \<open>glyphs\<close> attribute when that is a
  \<open>DictSetDelTracker\<close>, and the names assigned to since \<open>_trackAssignedAttributeNames\<close>.
\<close>

record rootObject =
  attributes :: "(string \<times> pyval) list"
  glyphs :: "dictSetDelTracker option"
  assignedAttributeNames :: "string list"

record 'c changeOps =
  applyChange :: "rootObject \<Rightarrow> 'c \<Rightarrow> store \<Rightarrow> (exn + unit) \<times> rootObject \<times> store"
  collectChangePaths :: "'c \<Rightarrow> nat \<Rightarrow> string list list"
  matchChangePattern :: "'c \<Rightarrow> pattern \<Rightarrow> bool"
  filterChangePattern :: "'c \<Rightarrow> pattern \<Rightarrow> 'c option"

subsection \<open>The edit coordinator\<close>

fun localDataPatternFrom ::
  "dataKey list \<Rightarrow> (string \<times> pattern option) list \<Rightarrow> exn + (string \<times> pattern option) list" where
  "localDataPatternFrom [] localPattern = Inr localPattern"
| "localDataPatternFrom (GlyphKey subKey # keys) localPattern =
     (case dictGet localPattern ''glyphs'' of
        None \<Rightarrow>
          localDataPatternFrom keys
            (dictSet localPattern ''glyphs'' (Some (Pattern [(subKey, None)])))
      | Some None \<Rightarrow> Inl TypeError
      | Some (Some subPattern) \<Rightarrow>
          localDataPatternFrom keys
            (dictSet localPattern ''glyphs'' (Some (Pattern (dictSet (items subPattern) subKey None)))))"
| "localDataPatternFrom (RootKey key # keys) localPattern =
     localDataPatternFrom keys (dictSet localPattern key None)"

definition getLocalDataPattern :: "('b, 'c) fontHandler \<Rightarrow> exn + pattern" where
  "getLocalDataPattern self =
     (case localDataPatternFrom (dictKeys (entries (localData self))) [] of
        Inl e \<Rightarrow> Inl e
      | Inr localPattern \<Rightarrow> Inr (Pattern localPattern))"

fun loadGlyphSet ::
  "'b backendOps \<Rightarrow> ('b, 'c) fontHandler \<Rightarrow> string list \<Rightarrow> (string \<times> pyval) list
     \<Rightarrow> (exn + (string \<times> pyval) list) \<times> ('b, 'c) fontHandler" where
  "loadGlyphSet B self [] glyphSet = (Inr glyphSet, self)"
| "loadGlyphSet B self (glyphName # glyphNames) glyphSet =
     (case getGlyph B self glyphName of
        (Inl e, self1) \<Rightarrow> (Inl e, self1)
      | (Inr glyph, self1) \<Rightarrow> loadGlyphSet B self1 glyphNames (dictSet glyphSet glyphName glyph))"

definition glyphNamesOfChange :: "'c changeOps \<Rightarrow> 'c \<Rightarrow> exn + string list" where
  "glyphNamesOfChange C change =
     (case mapE (\<lambda>p. case p of [key, glyphName] \<Rightarrow> Inr (key, glyphName) | _ \<Rightarrow> Inl ValueError)
             (collectChangePaths C change 2) of
        Inl e \<Rightarrow> Inl e
      | Inr pairs \<Rightarrow> Inr (map snd (filter (\<lambda>(key, glyphName). key = ''glyphs'') pairs)))"

fun prepareRootKeys ::
  "'c changeOps \<Rightarrow> 'b backendOps \<Rightarrow> 'c \<Rightarrow> string list \<Rightarrow> rootObject \<Rightarrow> ('b, 'c) fontHandler
     \<Rightarrow> (exn + rootObject) \<times> ('b, 'c) fontHandler" where
  "prepareRootKeys C B change [] rootObject self = (Inr rootObject, self)"
| "prepareRootKeys C B change (rootKey # rootKeys) rootObject self =
     (if rootKey = ''glyphs'' then
        (case glyphNamesOfChange C change of
           Inl e \<Rightarrow> (Inl e, self)
         | Inr glyphNames \<Rightarrow>
            (case loadGlyphSet B self glyphNames [] of
               (Inl e, self1) \<Rightarrow> (Inl e, self1)
             | (Inr glyphSet, self1) \<Rightarrow>
                 prepareRootKeys C B change rootKeys
                   (rootObject\<lparr>glyphs := Some (newDictSetDelTracker glyphSet)\<rparr>) self1))
      else
        (case getData B self rootKey of
           (Inl e, self1) \<Rightarrow> (Inl e, self1)
         | (Inr value, self1) \<Rightarrow>
             prepareRootKeys C B change rootKeys
               (rootObject\<lparr>attributes := dictSet (attributes rootObject) rootKey value\<rparr>) self1))"

definition prepareRootObject ::
  "'c changeOps \<Rightarrow> 'b backendOps \<Rightarrow> ('b, 'c) fontHandler \<Rightarrow> 'c
     \<Rightarrow> (exn + string list \<times> rootObject) \<times> ('b, 'c) fontHandler" where
  "prepareRootObject C B self change =
     (case mapE (\<lambda>p. case p of [] \<Rightarrow> Inl IndexError | k # _ \<Rightarrow> Inr k)
             (collectChangePaths C change 1) of
        Inl e \<Rightarrow> (Inl e, self)
      | Inr rootKeys \<Rightarrow>
         (case prepareRootKeys C B change rootKeys
                 \<lparr>attributes = [], glyphs = None, assignedAttributeNames = []\<rparr> self of
            (Inl e, self1) \<Rightarrow> (Inl e, self1)
          | (Inr rootObject, self1) \<Rightarrow>
              (Inr (rootKeys, rootObject\<lparr>assignedAttributeNames := []\<rparr>), self1)))"

text \<open>\<open>glyphMap.get(glyphName, [])\<close>: the default is a new, empty list.\<close>

definition glyphMapGet :: "store \<Rightarrow> pyval \<Rightarrow> string \<Rightarrow> (exn + pyval) \<times> store" where
  "glyphMapGet h glyphMap glyphName =
     (case glyphMap of
        PyRef a \<Rightarrow>
          (if a < length h then
             (case h ! a of
                PyDict d \<Rightarrow>
                  (case dictGet d glyphName of
                     None \<Rightarrow> (Inr (PyRef (length h)), h @ [PyList []])
                   | Some codePoints \<Rightarrow> (Inr codePoints, h))
              | _ \<Rightarrow> (Inl AttributeError, h))
           else (Inl AttributeError, h))
      | _ \<Rightarrow> (Inl AttributeError, h))"

fun updateGlyphs ::
  "'b backendOps \<Rightarrow> (string \<times> pyval) list \<Rightarrow> string list \<Rightarrow> pyval \<Rightarrow> connection option \<Rightarrow> bool
     \<Rightarrow> string list \<Rightarrow> ('b, 'c) fontHandler \<Rightarrow> (exn + unit) \<times> ('b, 'c) fontHandler" where
  "updateGlyphs B glyphSet new glyphMap sourceConnection writeToBackEnd [] self = (Inr (), self)"
| "updateGlyphs B glyphSet new glyphMap sourceConnection writeToBackEnd (glyphName # glyphNames) self =
     (case dictGet glyphSet glyphName of
        None \<Rightarrow> (Inl (KeyError glyphName), self)
      | Some glyph \<Rightarrow>
         (let writeKey = GlyphKey glyphName;
              self1 = (if glyphName \<in> set new
                       then self\<lparr>localData := lruSetItem (localData self) writeKey glyph\<rparr>
                       else self)
          in if \<not> writeToBackEnd
             then updateGlyphs B glyphSet new glyphMap sourceConnection writeToBackEnd glyphNames self1
             else if \<not> writable B then (Inl AssertionError, self1)
             else
               (case deepcopy (store self1) glyph of
                  None \<Rightarrow> (Inl RecursionError, self1)
                | Some (glyphCopy, h) \<Rightarrow>
                   (case glyphMapGet h glyphMap glyphName of
                      (Inl e, h') \<Rightarrow> (Inl e, self1\<lparr>store := h'\<rparr>)
                    | (Inr codePoints, h') \<Rightarrow>
                       (case scheduleDataWrite (self1\<lparr>store := h'\<rparr>) writeKey
                               (PutGlyph glyphName glyphCopy codePoints) sourceConnection of
                          (Inl e, self2) \<Rightarrow> (Inl e, self2)
                        | (Inr _, self2) \<Rightarrow>
                            updateGlyphs B glyphSet new glyphMap sourceConnection writeToBackEnd
                              glyphNames self2)))))"

fun deleteGlyphs ::
  "'b backendOps \<Rightarrow> connection option \<Rightarrow> bool \<Rightarrow> string list \<Rightarrow> ('b, 'c) fontHandler
     \<Rightarrow> (exn + unit) \<times> ('b, 'c) fontHandler" where
  "deleteGlyphs B sourceConnection writeToBackEnd [] self = (Inr (), self)"
| "deleteGlyphs B sourceConnection writeToBackEnd (glyphName # glyphNames) self =
     (let writeKey = GlyphKey glyphName;
          self1 = self\<lparr>localData := lruPop (localData self) writeKey\<rparr>
      in if \<not> writeToBackEnd
         then deleteGlyphs B sourceConnection writeToBackEnd glyphNames self1
         else if \<not> writable B then (Inl AssertionError, self1)
         else
           (case scheduleDataWrite self1 writeKey (DeleteGlyph glyphName) sourceConnection of
              (Inl e, self2) \<Rightarrow> (Inl e, self2)
            | (Inr _, self2) \<Rightarrow> deleteGlyphs B sourceConnection writeToBackEnd glyphNames self2))"

fun updateRootKeys ::
  "'b backendOps \<Rightarrow> rootObject \<Rightarrow> connection option \<Rightarrow> bool \<Rightarrow> string list
     \<Rightarrow> ('b, 'c) fontHandler \<Rightarrow> (exn + unit) \<times> ('b, 'c) fontHandler" where
  "updateRootKeys B rootObject sourceConnection writeToBackEnd [] self = (Inr (), self)"
| "updateRootKeys B rootObject sourceConnection writeToBackEnd (rootKey # rootKeys) self =
     (if rootKey = ''glyphs'' then
        (case glyphs rootObject of
           None \<Rightarrow> (Inl AttributeError, self)
         | Some glyphSet \<Rightarrow>
            (case getData B self ''glyphMap'' of
               (Inl e, self1) \<Rightarrow> (Inl e, self1)
             | (Inr glyphMap, self1) \<Rightarrow>
                (case updateGlyphs B (data glyphSet) (newKeys glyphSet) glyphMap sourceConnection
                        writeToBackEnd (sort (dictKeys (data glyphSet))) self1 of
                   (Inl e, self2) \<Rightarrow> (Inl e, self2)
                 | (Inr _, self2) \<Rightarrow>
                    (case deleteGlyphs B sourceConnection writeToBackEnd
                            (sort (deletedKeys glyphSet)) self2 of
                       (Inl e, self3) \<Rightarrow> (Inl e, self3)
                     | (Inr _, self3) \<Rightarrow>
                         updateRootKeys B rootObject sourceConnection writeToBackEnd rootKeys
                           self3))))
      else
        (case (if rootKey \<in> set (assignedAttributeNames rootObject) then
                 (case dictGet (attributes rootObject) rootKey of
                    None \<Rightarrow> (Inl AttributeError, self)
                  | Some value \<Rightarrow>
                      (Inr (), self\<lparr>localData := lruSetItem (localData self) (RootKey rootKey) value\<rparr>))
               else (Inr (), self)) of
           (Inl e, self1) \<Rightarrow> (Inl e, self1)
         | (Inr _, self1) \<Rightarrow>
            (if \<not> writeToBackEnd
             then updateRootKeys B rootObject sourceConnection writeToBackEnd rootKeys self1
             else if \<not> writable B then (Inl AssertionError, self1)
             else
               (case lruGetItem (localData self1) (RootKey rootKey) of
                  (Inl e, c) \<Rightarrow> (Inl e, self1\<lparr>localData := c\<rparr>)
                | (Inr value, c) \<Rightarrow>
                   (case deepcopy (store self1) value of
                      None \<Rightarrow> (Inl RecursionError, self1\<lparr>localData := c\<rparr>)
                    | Some (valueCopy, h) \<Rightarrow>
                       (case scheduleDataWrite (self1\<lparr>localData := c, store := h\<rparr>)
                               (RootKey rootKey) (PutData rootKey valueCopy) sourceConnection of
                          (Inl e, self2) \<Rightarrow> (Inl e, self2)
                        | (Inr _, self2) \<Rightarrow>
                            updateRootKeys B rootObject sourceConnection writeToBackEnd rootKeys
                              self2))))))"

definition updateLocalData ::
  "'b backendOps \<Rightarrow> ('b, 'c) fontHandler \<Rightarrow> string list \<Rightarrow> rootObject \<Rightarrow> connection option \<Rightarrow> bool
     \<Rightarrow> (exn + unit) \<times> ('b, 'c) fontHandler" where
  "updateLocalData B self rootKeys rootObject sourceConnection writeToBackEnd =
     updateRootKeys B rootObject sourceConnection writeToBackEnd
       (rootKeys @ sort (assignedAttributeNames rootObject)) self"

definition updateLocalDataAndWriteToBackend' ::
  "'c changeOps \<Rightarrow> 'b backendOps \<Rightarrow> ('b, 'c) fontHandler \<Rightarrow> 'c \<Rightarrow> connection option \<Rightarrow> bool
     \<Rightarrow> (exn + unit) \<times> ('b, 'c) fontHandler" where
  "updateLocalDataAndWriteToBackend' C B self change sourceConnection isExternalChange =
     (case (if isExternalChange then
              (case getLocalDataPattern self of
                 Inl e \<Rightarrow> Inl e
               | Inr localPattern \<Rightarrow> Inr (filterChangePattern C change localPattern))
            else Inr (Some change)) of
        Inl e \<Rightarrow> (Inl e, self)
      | Inr None \<Rightarrow> (Inr (), self)
      | Inr (Some change') \<Rightarrow>
         (case prepareRootObject C B self change' of
            (Inl e, self1) \<Rightarrow> (Inl e, self1)
          | (Inr (rootKeys, rootObject), self1) \<Rightarrow>
             (case applyChange C rootObject change' (store self1) of
                (Inl e, rootObject', h) \<Rightarrow> (Inl e, self1\<lparr>store := h\<rparr>)
              | (Inr _, rootObject', h) \<Rightarrow>
                  updateLocalData B (self1\<lparr>store := h\<rparr>) rootKeys rootObject' sourceConnection
                    (\<not> isExternalChange \<and> \<not> readOnly self1))))"

definition updateLocalDataWithExternalChange ::
  "'c changeOps \<Rightarrow> 'b backendOps \<Rightarrow> ('b, 'c) fontHandler \<Rightarrow> 'c
     \<Rightarrow> (exn + unit) \<times> ('b, 'c) fontHandler" where
  "updateLocalDataWithExternalChange C B self change =
     updateLocalDataAndWriteToBackend' C B self change None True"

definition updateLocalDataAndWriteToBackend ::
  "'c changeOps \<Rightarrow> 'b backendOps \<Rightarrow> ('b, 'c) fontHandler \<Rightarrow> 'c \<Rightarrow> connection option
     \<Rightarrow> (exn + unit) \<times> ('b, 'c) fontHandler" where
  "updateLocalDataAndWriteToBackend C B self change sourceConnection =
     updateLocalDataAndWriteToBackend' C B self change sourceConnection False"

definition editIncremental ::
  "'c changeOps \<Rightarrow> ('b, 'c) fontHandler \<Rightarrow> 'c \<Rightarrow> connection option \<Rightarrow> ('b, 'c) fontHandler" where
  "editIncremental C self liveChange connection =
     broadcastChange (matchChangePattern C) self liveChange connection True"

definition editFinal ::
  "'c changeOps \<Rightarrow> 'b backendOps \<Rightarrow> ('b, 'c) fontHandler \<Rightarrow> 'c \<Rightarrow> 'c \<Rightarrow> string \<Rightarrow> bool
     \<Rightarrow> connection option \<Rightarrow> (exn + unit) \<times> ('b, 'c) fontHandler" where
  "editFinal C B self finalChange rollbackChange editLabel broadcast connection =
     (case updateLocalDataAndWriteToBackend C B self finalChange connection of
        (Inl e, self1) \<Rightarrow> (Inl e, self1)
      | (Inr _, self1) \<Rightarrow>
          (if broadcast
           then (Inr (), broadcastChange (matchChangePattern C) self1 finalChange connection False)
           else (Inr (), self1)))"

subsection \<open>Construction\<close>

text \<open>
  \<open>__post_init__\<close> followed by \<open>startTasks\<close>: a backend that is not writable forces
  \<open>readOnly\<close>; the queue is the empty dictionary, no write error is stored, the write
  task waits for its event and no writing is in progress.  The capacity of the cache and
  the object store are given.
\<close>

definition startedFontHandler ::
  "'b backendOps \<Rightarrow> 'b \<Rightarrow> bool \<Rightarrow> bool \<Rightarrow> nat \<Rightarrow> store \<Rightarrow> ('b, 'c) fontHandler" where
  "startedFontHandler B b ro dummy capacity h =
     \<lparr>backend = b,
      readOnly = (if \<not> writable B then True else ro),
      dummyEditor = dummy,
      connections = [],
      glyphUsedBy = Map.empty,
      glyphMadeOf = Map.empty,
      clientData = (\<lambda>_. []),
      localData = \<lparr>entries = [], maxSize = capacity\<rparr>,
      dataScheduledForWriting = Some [],
      processWritesError = None,
      processWritesEvent = False,
      writingInProgressEvent = True,
      store = h,
      proxyCalls = [],
      logged = []\<rparr>"

section \<open>Notions used in the statements\<close>





definition namesAt :: "(string \<rightharpoonup> string list) \<Rightarrow> string \<Rightarrow> string list" where
  "namesAt d key = (case d key of None \<Rightarrow> [] | Some names \<Rightarrow> names)"

definition schedulerView ::
  "('b, 'c) fontHandler \<Rightarrow>
     (dataKey \<times> writeFunc \<times> connection option) list option \<times> exn option \<times> bool \<times> bool \<times> bool \<times> bool" where
  "schedulerView self =
     (dataScheduledForWriting self, processWritesError self, processWritesEvent self,
      writingInProgressEvent self, readOnly self, dummyEditor self)"

text \<open>
  The operations of a started handler, as steps from one state to the next: the remote
  methods, the watcher's update, the write task and the entry and exit of a connection.
\<close>

inductive handlerStep ::
  "'c changeOps \<Rightarrow> 'b backendOps \<Rightarrow> ('b, 'c) fontHandler \<Rightarrow> ('b, 'c) fontHandler \<Rightarrow> bool"
  for C :: "'c changeOps" and B :: "'b backendOps" where
  stepScheduleDataWrite: "handlerStep C B s (snd (scheduleDataWrite s writeKey writeFunc connection))"
| stepReloadData: "handlerStep C B s (snd (reloadData s reloadPattern))"
| stepBroadcastChange:
    "handlerStep C B s (broadcastChange (matchChangePattern C) s change sourceConnection isLive)"
| stepGetGlyph: "handlerStep C B s (snd (getGlyph B s glyphName))"
| stepGetData: "handlerStep C B s (snd (getData B s key))"
| stepSubscribeChanges: "handlerStep C B s (subscribeChanges s pathOrPattern wantLive connection')"
| stepUnsubscribeChanges: "handlerStep C B s (unsubscribeChanges s pathOrPattern wantLive connection')"
| stepEditIncremental: "handlerStep C B s (editIncremental C s change connection)"
| stepEditFinal:
    "handlerStep C B s (snd (editFinal C B s change rollback label broadcast connection))"
| stepExternalChange: "handlerStep C B s (snd (updateLocalDataWithExternalChange C B s change))"
| stepProcessWrites: "handlerStep C B s (snd (processWrites B s))"
| stepUseConnection: "handlerStep C B s (s\<lparr>connections := cs\<rparr>)"

text \<open>
  A Python dictionary holds a key once.  A pattern is well formed when this is so for its
  association list and for those of the patterns nested in it.
\<close>

fun wfPattern :: "pattern \<Rightarrow> bool" where
  "wfPattern (Pattern xs) =
     (distinct (map fst xs) \<and>
      (\<forall>(k, v) \<in> set xs. case v of None \<Rightarrow> True | Some p \<Rightarrow> wfPattern p))"







text \<open>A store is closed when every reference in it points into it.\<close>

definition closedVal :: "nat \<Rightarrow> pyval \<Rightarrow> bool" where
  "closedVal n v = (case v of PyRef a \<Rightarrow> a < n | _ \<Rightarrow> True)"

definition closedStore :: "store \<Rightarrow> bool" where
  "closedStore h = list_all (\<lambda>obj. list_all (closedVal (length h)) (members obj)) h"








section \<open>A small font for concrete runs\<close>

text \<open>
  Glyph \<open>A\<close> has one layer with one component, \<open>B\<close>; the glyph map gives it the
  code point 65.  The backend knows glyph \<open>A\<close> only, records the writes it performs and
  fails to write a glyph named \<open>bad\<close>.
\<close>

definition demoStore :: store where
  "demoStore =
     [PyObject [(''layers'', PyRef 1)],
      PyDict [(''default'', PyRef 2)],
      PyObject [(''glyph'', PyRef 3)],
      PyObject [(''components'', PyRef 4)],
      PyList [PyRef 5],
      PyObject [(''name'', PyStr ''B'')],
      PyDict [(''A'', PyRef 7)],
      PyList [PyInt 65]]"

definition demoBackend :: "(writeFunc list) backendOps" where
  "demoBackend =
     \<lparr>writable = True,
      getGlyphB = (\<lambda>glyphName (b, h). (Inr (if glyphName = ''A'' then PyRef 0 else PyNone), b, h)),
      getGlobalAxes = (\<lambda>(b, h). (Inr PyNone, b, h)),
      getGlyphMap = (\<lambda>(b, h). (Inr (PyRef 6), b, h)),
      getCustomData = (\<lambda>(b, h). (Inr PyNone, b, h)),
      getUnitsPerEm = (\<lambda>(b, h). (Inr (PyInt 1000), b, h)),
      putGlyph = (\<lambda>glyphName glyph codePoints (b, h).
         if glyphName = ''bad'' then (Inl (BackendError ''disk full''), b, h)
         else (Inr (), b @ [PutGlyph glyphName glyph codePoints], h)),
      deleteGlyph = (\<lambda>glyphName (b, h). (Inr (), b @ [DeleteGlyph glyphName], h)),
      putGlobalAxes = (\<lambda>v (b, h). (Inr (), b @ [PutData ''axes'' v], h)),
      putGlyphMap = (\<lambda>v (b, h). (Inr (), b @ [PutData ''glyphMap'' v], h)),
      putCustomData = (\<lambda>v (b, h). (Inr (), b @ [PutData ''customData'' v], h)),
      putUnitsPerEm = (\<lambda>v (b, h). (Inr (), b @ [PutData ''unitsPerEm'' v], h))\<rparr>"

definition demoHandler :: "(writeFunc list, string) fontHandler" where
  "demoHandler = startedFontHandler demoBackend [] False False 128 demoStore"

definition alice :: connection where
  "alice = Connection 1 ''uuid-alice''"

definition bob :: connection where
  "bob = Connection 2 ''uuid-bob''"



definition demoMatch :: "string \<Rightarrow> pattern \<Rightarrow> bool" where
  "demoMatch change p = (dictGet (items p) change \<noteq> None)"

definition demoConnected :: "(writeFunc list, string) fontHandler" where
  "demoConnected =
     subscribeChanges
       (subscribeChanges (demoHandler\<lparr>connections := [alice, bob]\<rparr>)
          (IsPath [''glyphs'', ''A'']) False alice)
       (IsPath [''glyphs'', ''A'']) True bob"

definition demoCached :: "(writeFunc list, string) fontHandler" where
  "demoCached = demoConnected\<lparr>localData :=
     \<lparr>entries = [(GlyphKey ''A'', PyRef 0), (RootKey ''unitsPerEm'', PyInt 1000)],
      maxSize = 128\<rparr>\<rparr>"

definition demoChanges :: "string changeOps" where
  "demoChanges =
     \<lparr>applyChange = (\<lambda>root change h.
        if change = ''edit'' then
          (Inr (),
           root\<lparr>glyphs := map_option (\<lambda>t. trackerSetItem t ''N'' (PyRef (length h))) (glyphs root)\<rparr>,
           h[5 := PyObject [(''name'', PyStr ''C'')]]
             @ [PyObject [(''layers'', PyRef (Suc (length h)))], PyDict []])
        else (Inl (KeyError change), root, h)),
      collectChangePaths = (\<lambda>change depth.
        if depth = 1 then [[''glyphs'']] else [[''glyphs'', ''A'']]),
      matchChangePattern = (\<lambda>change p. dictGet (items p) ''glyphs'' \<noteq> None),
      filterChangePattern = (\<lambda>change p.
        if dictGet (items p) ''glyphs'' \<noteq> None then Some change else None)\<rparr>"

definition demoReadOnly :: "(writeFunc list, string) fontHandler" where
  "demoReadOnly = demoConnected\<lparr>readOnly := True, dummyEditor := True\<rparr>"



section \<open>Properties\<close>

subsection \<open>The write queue\<close>




















subsection \<open>Broadcasting a change\<close>

text \<open>
  Claim C4.  \<open>broadcastChange\<close> schedules one \<open>externalChange(change, isLiveChange)\<close> call
  for each target and nothing else.  A connection is a target iff it is connected, it is
  not the source, and the change matches its live pattern when the change is live, or its
  live pattern or its committed pattern when the change is not live.  No connection is a
  target more often than it is connected.
\<close>

theorem broadcastChange_targets:
  fixes self :: "('b, 'c) fontHandler"
  shows "proxyCalls (broadcastChange matches self change sourceConnection isLiveChange)
           = proxyCalls self @
             map (\<lambda>connection. ExternalChange connection change isLiveChange)
               (broadcastTargets matches self change sourceConnection isLiveChange)
       \<and> (\<forall>connection.
             connection \<in> set (broadcastTargets matches self change sourceConnection
                                 isLiveChange)
             \<longleftrightarrow> connection \<in> set (connections self)
                \<and> Some connection \<noteq> sourceConnection
                \<and> (if isLiveChange
                   then matches change
                          (getClientData self connection LIVE_CHANGES_PATTERN_KEY (Pattern []))
                   else matches change
                          (getClientData self connection LIVE_CHANGES_PATTERN_KEY (Pattern []))
                      \<or> matches change
                          (getClientData self connection CHANGES_PATTERN_KEY (Pattern []))))
       \<and> (\<forall>connection.
             count_list (broadcastTargets matches self change sourceConnection
                           isLiveChange) connection
             \<le> count_list (connections self) connection)"
proof -
  have "count_list (filter P xs) x \<le> count_list xs x" for P and xs :: "connection list" and x
    by (induction xs) auto
  then show ?thesis
    by (auto simp: broadcastChange_def broadcastTargets_def Let_def)
qed

lemma demoConnected_eval:
  "demoConnected = demoHandler\<lparr>connections := [alice, bob],
     clientData := (\<lambda>_. [])
       (''uuid-alice'' := [(CHANGES_PATTERN_KEY, Pattern [(''glyphs'', Some (Pattern [(''A'', None)]))])],
        ''uuid-bob'' := [(LIVE_CHANGES_PATTERN_KEY, Pattern [(''glyphs'', Some (Pattern [(''A'', None)]))])])\<rparr>"
  by (simp add: demoConnected_def subscribeChanges_def adjustMatchPattern_def Let_def
      getClientData_def setClientData_def demoHandler_def startedFontHandler_def alice_def bob_def
      CHANGES_PATTERN_KEY_def LIVE_CHANGES_PATTERN_KEY_def)

theorem broadcastChange_targets_witness:
  "proxyCalls (broadcastChange demoMatch demoConnected ''glyphs'' None True)
     = [ExternalChange bob ''glyphs'' True]
   \<and> proxyCalls (broadcastChange demoMatch demoConnected ''glyphs'' None False)
     = [ExternalChange alice ''glyphs'' False, ExternalChange bob ''glyphs'' False]
   \<and> proxyCalls (broadcastChange demoMatch demoConnected ''glyphs'' (Some bob) False)
     = [ExternalChange alice ''glyphs'' False]"
proof -
  have t: "broadcastTargets demoMatch demoConnected ''glyphs'' None True = [bob]"
    "broadcastTargets demoMatch demoConnected ''glyphs'' None False = [alice, bob]"
    "broadcastTargets demoMatch demoConnected ''glyphs'' (Some bob) False = [alice]"
    by (simp_all add: broadcastTargets_def demoConnected_eval demoMatch_def getClientData_def
        demoHandler_def startedFontHandler_def alice_def bob_def
        CHANGES_PATTERN_KEY_def LIVE_CHANGES_PATTERN_KEY_def)
  have p: "proxyCalls demoConnected = []"
    by (simp add: demoConnected_eval demoHandler_def startedFontHandler_def)
  show ?thesis
    using broadcastChange_targets[of demoMatch demoConnected "''glyphs''" None True]
      broadcastChange_targets[of demoMatch demoConnected "''glyphs''" None False]
      broadcastChange_targets[of demoMatch demoConnected "''glyphs''" "Some bob" False]
    by (simp add: t p)
qed

subsection \<open>Reloading, and scheduling after the write task is done\<close>

text \<open>
  Claim C5.  For the pattern that maps \<open>"glyphs"\<close> to the sentinel, which contains the path
  of every glyph key, \<open>reloadData\<close> raises \<open>TypeError\<close> and the cached glyph \<open>A\<close> stays
  in the cache.
\<close>

theorem reloadData_glyphs_sentinel_raises:
  "reloadData demoCached (Pattern [(''glyphs'', None)]) = (Inl TypeError, demoCached)
   \<and> patternContains (Pattern [(''glyphs'', None)]) (keyPath (GlyphKey ''A''))
   \<and> dictGet (entries (localData (snd (reloadData demoCached (Pattern [(''glyphs'', None)])))))
        (GlyphKey ''A'') = Some (PyRef 0)"
  by (simp add: reloadData_def demoCached_def)

text \<open>
  Claim C6.  Once the write task is done, \<open>scheduleDataWrite\<close> without a connection drops
  the cache entry of the key, informs the subscribed connections of the reload and then
  raises \<open>AttributeError\<close>: no \<open>messageFromServer\<close> call is made.
\<close>

theorem scheduleDataWrite_no_connection_raises:
  "scheduleDataWrite (processWritesTaskDone demoCached) (GlyphKey ''A'') (DeleteGlyph ''A'') None
     = (Inl AttributeError,
        (processWritesTaskDone demoCached)\<lparr>
           localData := \<lparr>entries = [(RootKey ''unitsPerEm'', PyInt 1000)], maxSize = 128\<rparr>,
           logged := [LogBroadcastReload 2 (Pattern [(''glyphs'', Some (Pattern [(''A'', None)]))])],
           proxyCalls :=
             [ReloadData alice (Pattern [(''glyphs'', Some (Pattern [(''A'', None)]))]),
              ReloadData bob (Pattern [(''glyphs'', Some (Pattern [(''A'', None)]))])]\<rparr>)"
  by (simp add: scheduleDataWrite_def processWritesTaskDone_def demoCached_def demoConnected_eval
      reloadData_def writeKeyToPattern_def lruPop_def dictKeys_def Let_def
      getCombinedSubscribePattern_def getClientData_def demoHandler_def startedFontHandler_def
      alice_def bob_def CHANGES_PATTERN_KEY_def LIVE_CHANGES_PATTERN_KEY_def)

subsection \<open>The dependency tracker\<close>

lemma zapUsedBy_lookup:
  "set (namesAt (zapUsedBy g cs u) c)
     = (if c \<in> set cs then set (namesAt u c) - {g} else set (namesAt u c))"
proof -
  define f where "f = (\<lambda>componentName (u :: string \<rightharpoonup> string list).
             (case u componentName of
                None \<Rightarrow> u
              | Some users \<Rightarrow> u(componentName \<mapsto> removeAll g users)))"
  have step: "set (namesAt (f a u) c) = (if c = a then set (namesAt u c) - {g} else set (namesAt u c))"
    for a u
    by (auto simp: f_def namesAt_def split: option.splits)
  have "set (namesAt (fold f cs u) c)
     = (if c \<in> set cs then set (namesAt u c) - {g} else set (namesAt u c))"
    by (induction cs arbitrary: u) (auto simp: step)
  then show ?thesis by (simp add: zapUsedBy_def f_def)
qed

lemma addUsedBy_lookup:
  "set (namesAt (addUsedBy g cs u) c)
     = (if c \<in> set cs then insert g (set (namesAt u c)) else set (namesAt u c))"
proof -
  define f where "f = (\<lambda>componentName (u :: string \<rightharpoonup> string list).
             (let u' = (if u componentName = None then u(componentName \<mapsto> []) else u)
              in (case u' componentName of
                    None \<Rightarrow> u'
                  | Some users \<Rightarrow> u'(componentName \<mapsto> List.insert g users))))"
  have step: "set (namesAt (f a u) c)
       = (if c = a then insert g (set (namesAt u c)) else set (namesAt u c))"
    for a u
    by (auto simp: f_def namesAt_def Let_def split: option.splits)
  have "set (namesAt (fold f cs u) c)
     = (if c \<in> set cs then insert g (set (namesAt u c)) else set (namesAt u c))"
    by (induction cs arbitrary: u) (auto simp: step)
  then show ?thesis by (simp add: addUsedBy_def f_def)
qed

text \<open>
  Claim C7.  If the two indices of the dependency tracker mirror each other
  (\<open>g\<close> is recorded as a user of \<open>c\<close> iff \<open>c\<close> is recorded as a component of \<open>g\<close>) and
  \<open>updateGlyphDependencies\<close> returns, they mirror each other afterwards.  The components
  recorded for the glyph are then the names of its components, its entry in
  \<open>glyphMadeOf\<close> is absent iff there are none, the glyph is a user of exactly these
  names, and for every other glyph both indices are as before.
\<close>

theorem updateGlyphDependencies_symmetry:
  fixes self :: "('b, 'c) fontHandler"
  assumes sym: "\<forall>g c. g \<in> set (namesAt (glyphUsedBy self) c) \<longleftrightarrow> c \<in> set (namesAt (glyphMadeOf self) g)"
    and ret: "updateGlyphDependencies self glyphName glyph = (Inr (), self')"
  shows "(\<forall>g c. g \<in> set (namesAt (glyphUsedBy self') c) \<longleftrightarrow> c \<in> set (namesAt (glyphMadeOf self') g))
       \<and> (\<exists>names. iterAllComponentNames (store self) glyph = Inr names
             \<and> namesAt (glyphMadeOf self') glyphName = remdups names
             \<and> (glyphMadeOf self' glyphName = None \<longleftrightarrow> names = [])
             \<and> (\<forall>c. glyphName \<in> set (namesAt (glyphUsedBy self') c) \<longleftrightarrow> c \<in> set names)
             \<and> (\<forall>g c. g \<noteq> glyphName \<longrightarrow>
                   (g \<in> set (namesAt (glyphUsedBy self') c) \<longleftrightarrow> g \<in> set (namesAt (glyphUsedBy self) c))
                 \<and> namesAt (glyphMadeOf self') g = namesAt (glyphMadeOf self) g))"
proof -
  let ?old = "namesAt (glyphMadeOf self) glyphName"
  let ?u1 = "zapUsedBy glyphName ?old (glyphUsedBy self)"
  obtain names where names: "iterAllComponentNames (store self) glyph = Inr names"
    using ret by (auto simp: updateGlyphDependencies_def Let_def split: sum.splits)
  let ?cs = "remdups names"
  let ?m' = "if ?cs \<noteq> [] then (glyphMadeOf self)(glyphName \<mapsto> ?cs)
             else (glyphMadeOf self)(glyphName := None)"
  have made: "glyphMadeOf self' = ?m'"
    using ret names
    by (auto simp: updateGlyphDependencies_def Let_def namesAt_def split: if_splits)
  have used: "glyphUsedBy self' = addUsedBy glyphName ?cs ?u1"
    using ret names
    by (auto simp: updateGlyphDependencies_def Let_def namesAt_def split: if_splits)
  have madeAt: "namesAt (glyphMadeOf self') g = (if g = glyphName then ?cs else namesAt (glyphMadeOf self) g)"
    for g
    by (simp add: made namesAt_def)
  have usedAt: "x \<in> set (namesAt (glyphUsedBy self') c)
      \<longleftrightarrow> (if x = glyphName then c \<in> set names else x \<in> set (namesAt (glyphUsedBy self) c))"
    for x c
    using sym by (auto simp: used addUsedBy_lookup zapUsedBy_lookup)
  have "glyphMadeOf self' glyphName = None \<longleftrightarrow> names = []"
    by (simp add: made)
  then show ?thesis
    using names sym by (auto simp: madeAt usedAt)
qed

lemma demo_componentNames: "iterAllComponentNames demoStore (PyRef 0) = Inr [''B'']"
  by (simp add: iterAllComponentNames_def componentNamesOfLayer_def getattrPy_def valuesPy_def
      iterPy_def demoStore_def)

lemma demo_updateGlyphDependencies:
  "updateGlyphDependencies demoHandler ''A'' (PyRef 0)
     = (Inr (), demoHandler\<lparr>glyphUsedBy := [''B'' \<mapsto> [''A'']], glyphMadeOf := [''A'' \<mapsto> [''B'']]\<rparr>)"
  by (simp add: updateGlyphDependencies_def demoHandler_def startedFontHandler_def
      demo_componentNames zapUsedBy_def addUsedBy_def Let_def)

theorem updateGlyphDependencies_symmetry_witness:
  "(\<forall>g c. g \<in> set (namesAt (glyphUsedBy demoHandler) c)
           \<longleftrightarrow> c \<in> set (namesAt (glyphMadeOf demoHandler) g))
   \<and> updateGlyphDependencies demoHandler ''A'' (PyRef 0)
       = (Inr (), demoHandler\<lparr>glyphUsedBy := [''B'' \<mapsto> [''A'']], glyphMadeOf := [''A'' \<mapsto> [''B'']]\<rparr>)
   \<and> (\<forall>g c. g \<in> set (namesAt [''B'' \<mapsto> [''A'']] c) \<longleftrightarrow> c \<in> set (namesAt [''A'' \<mapsto> [''B'']] g))"
proof -
  have h1: "\<forall>g c. g \<in> set (namesAt (glyphUsedBy demoHandler) c)
           \<longleftrightarrow> c \<in> set (namesAt (glyphMadeOf demoHandler) g)"
    by (simp add: demoHandler_def startedFontHandler_def namesAt_def)
  show ?thesis
    using h1 updateGlyphDependencies_symmetry[OF h1 demo_updateGlyphDependencies]
      demo_updateGlyphDependencies
    by simp
qed

text \<open>
  Claim C10.  When the cache lookup of a glyph yields \<open>None\<close> (the key is missing or its
  stored value is \<open>None\<close>) and the backend reports the glyph as absent, \<open>getGlyph\<close>
  returns \<open>None\<close>, leaves both indices of the dependency tracker as they are, and leaves
  the handler with the state the backend call produced and with a cache whose lookup of
  the glyph yields \<open>None\<close> again: the next \<open>getGlyph\<close> for the name calls the backend
  again.
\<close>

subsection \<open>Glyphs the backend does not have\<close>











subsection \<open>Edits that do not write\<close>

lemma schedulerView_simps [simp]:
  "schedulerView (self\<lparr>localData := c\<rparr>) = schedulerView self"
  "schedulerView (self\<lparr>store := h\<rparr>) = schedulerView self"
  "schedulerView (self\<lparr>backend := b\<rparr>) = schedulerView self"
  "schedulerView (self\<lparr>proxyCalls := p\<rparr>) = schedulerView self"
  "schedulerView (self\<lparr>logged := l\<rparr>) = schedulerView self"
  "schedulerView (self\<lparr>glyphUsedBy := u\<rparr>) = schedulerView self"
  "schedulerView (self\<lparr>glyphMadeOf := m\<rparr>) = schedulerView self"
  "schedulerView (self\<lparr>clientData := d\<rparr>) = schedulerView self"
  "schedulerView (self\<lparr>connections := cs\<rparr>) = schedulerView self"
  by (simp_all add: schedulerView_def)

lemma reloadData_view: "schedulerView (snd (reloadData self p)) = schedulerView self"
  by (auto simp: reloadData_def Let_def split: prod.splits sum.splits)

lemma scheduleDataWrite_view:
  "dataScheduledForWriting self = None \<Longrightarrow>
     schedulerView (snd (scheduleDataWrite self k f c)) = schedulerView self"
  using reloadData_view[of self "writeKeyToPattern k"]
  by (auto simp: scheduleDataWrite_def split: prod.splits sum.splits option.splits)

lemma broadcastChange_view: "schedulerView (broadcastChange m self ch src live) = schedulerView self"
  by (simp add: broadcastChange_def)


lemma updateGlyphDependencies_view:
  "schedulerView (snd (updateGlyphDependencies self n g)) = schedulerView self"
  by (simp add: updateGlyphDependencies_def Let_def split: sum.splits)

lemma getGlyphFromBackend_view:
  "schedulerView (snd (getGlyphFromBackend B self n)) = schedulerView self"
proof -
  obtain r b h where c: "getGlyphB B n (backend self, store self) = (r, b, h)"
    by (metis prod_cases3)
  show ?thesis
    using updateGlyphDependencies_view[of "self\<lparr>backend := b, store := h\<rparr>" n]
    by (cases r) (auto simp: getGlyphFromBackend_def c Let_def split: prod.splits sum.splits,
                  (metis snd_conv)+)
qed

lemma getGlyph_view: "schedulerView (snd (getGlyph B self n)) = schedulerView self"
proof -
  obtain g c where l: "lruGet (localData self) (GlyphKey n) PyNone = (g, c)"
    by (cases "lruGet (localData self) (GlyphKey n) PyNone")
  show ?thesis
    using getGlyphFromBackend_view[of B "self\<lparr>localData := c\<rparr>" n]
    by (cases "getGlyphFromBackend B (self\<lparr>localData := c\<rparr>) n")
       (auto simp: getGlyph_def l Let_def split: sum.splits)
qed

lemma getDataFromBackend_view:
  "schedulerView (snd (getDataFromBackend B self key)) = schedulerView self"
  by (auto simp: getDataFromBackend_def split: prod.splits)

lemma getData_view: "schedulerView (snd (getData B self key)) = schedulerView self"
proof -
  obtain g c where l: "lruGet (localData self) (RootKey key) PyNone = (g, c)"
    by (cases "lruGet (localData self) (RootKey key) PyNone")
  show ?thesis
    using getDataFromBackend_view[of B "self\<lparr>localData := c\<rparr>" key]
    by (cases "getDataFromBackend B (self\<lparr>localData := c\<rparr>) key")
       (auto simp: getData_def l Let_def split: sum.splits)
qed

lemma loadGlyphSet_view:
  "schedulerView (snd (loadGlyphSet B self names acc)) = schedulerView self"
proof (induction names arbitrary: self acc)
  case Nil
  show ?case by simp
next
  case (Cons n names)
  obtain r s1 where g: "getGlyph B self n = (r, s1)" by (cases "getGlyph B self n")
  have "schedulerView s1 = schedulerView self" using getGlyph_view[of B self n] g by simp
  then show ?case using Cons.IH by (cases r) (simp_all add: g)
qed

lemma prepareRootKeys_view:
  "schedulerView (snd (prepareRootKeys C B ch keys ro self)) = schedulerView self"
proof (induction keys arbitrary: ro self)
  case Nil
  show ?case by simp
next
  case (Cons k keys)
  show ?case
  proof (cases "k = ''glyphs''")
    case True
    show ?thesis
    proof (cases "glyphNamesOfChange C ch")
      case (Inl e)
      with True show ?thesis by simp
    next
      case (Inr names)
      obtain r s1 where l: "loadGlyphSet B self names [] = (r, s1)"
        by (cases "loadGlyphSet B self names []")
      have "schedulerView s1 = schedulerView self"
        using loadGlyphSet_view[of B self names "[]"] l by simp
      then show ?thesis using Cons.IH True Inr l by (cases r) simp_all
    qed
  next
    case False
    obtain r s1 where l: "getData B self k = (r, s1)" by (cases "getData B self k")
    have "schedulerView s1 = schedulerView self" using getData_view[of B self k] l by simp
    then show ?thesis using Cons.IH False l by (cases r) simp_all
  qed
qed

lemma prepareRootObject_view:
  "schedulerView (snd (prepareRootObject C B self ch)) = schedulerView self"
proof -
  have "schedulerView (snd (prepareRootKeys C B ch keys ro self)) = schedulerView self" for keys ro
    by (rule prepareRootKeys_view)
  then show ?thesis
    by (auto simp: prepareRootObject_def split: sum.splits prod.splits)
       (metis snd_conv)+
qed

lemma scheduleDataWrite_view_pair:
  "dataScheduledForWriting self = None \<Longrightarrow> scheduleDataWrite self k f c = (r, s')
     \<Longrightarrow> schedulerView s' = schedulerView self"
  using scheduleDataWrite_view[of self k f c] by simp

lemma view_queue: "schedulerView a = schedulerView b \<Longrightarrow> dataScheduledForWriting a = dataScheduledForWriting b"
  by (simp add: schedulerView_def)

lemma updateGlyphs_view:
  "\<not> w \<or> dataScheduledForWriting self = None \<Longrightarrow>
     schedulerView (snd (updateGlyphs B glyphSet new glyphMap src w names self)) = schedulerView self"
proof (induction names arbitrary: self)
  case Nil
  show ?case by simp
next
  case (Cons n names)
  show ?case
  proof (cases "dictGet glyphSet n")
    case None
    then show ?thesis by simp
  next
    case (Some glyph)
    let ?s1 = "if n \<in> set new
               then self\<lparr>localData := lruSetItem (localData self) (GlyphKey n) glyph\<rparr> else self"
    have v1: "schedulerView ?s1 = schedulerView self" by simp
    show ?thesis
    proof (cases w)
      case False
      have "\<not> w \<or> dataScheduledForWriting ?s1 = None" using False by simp
      from Cons.IH[OF this] v1 show ?thesis
        using Some False by (simp add: Let_def)
    next
      case True
      with Cons.prems have q: "dataScheduledForWriting self = None" by simp
      show ?thesis
      proof (cases "writable B")
        case False
        then show ?thesis using Some True v1 by (simp add: Let_def)
      next
        case wr: True
        show ?thesis
        proof (cases "deepcopy (store ?s1) glyph")
          case None
          then show ?thesis using Some True wr v1 by (simp add: Let_def)
        next
          case (Some cp)
          obtain glyphCopy h where cp: "cp = (glyphCopy, h)" by (cases cp)
          obtain r h' where gm: "glyphMapGet h glyphMap n = (r, h')"
            by (cases "glyphMapGet h glyphMap n")
          show ?thesis
          proof (cases r)
            case (Inl e)
            then show ?thesis
              using \<open>dictGet glyphSet n = Some glyph\<close> True wr Some cp gm v1
              by (simp add: Let_def)
          next
            case (Inr codePoints)
            let ?s2 = "?s1\<lparr>store := h'\<rparr>"
            obtain r2 s3 where sch: "scheduleDataWrite ?s2 (GlyphKey n)
                 (PutGlyph n glyphCopy codePoints) src = (r2, s3)"
              by (cases "scheduleDataWrite ?s2 (GlyphKey n) (PutGlyph n glyphCopy codePoints) src")
            have q2: "dataScheduledForWriting ?s2 = None" using q by simp
            have v3: "schedulerView s3 = schedulerView self"
              using scheduleDataWrite_view_pair[OF q2 sch] by simp
            then have q3: "\<not> w \<or> dataScheduledForWriting s3 = None"
              using q view_queue[OF v3] by simp
            show ?thesis
            proof (cases r2)
              case (Inl e)
              then show ?thesis
                using \<open>dictGet glyphSet n = Some glyph\<close> True wr Some cp gm Inr sch v3
                by (simp add: Let_def)
            next
              case Inr2: (Inr u)
              then show ?thesis
                using \<open>dictGet glyphSet n = Some glyph\<close> True wr Some cp gm Inr sch v3
                  Cons.IH[OF q3]
                by (simp add: Let_def)
            qed
          qed
        qed
      qed
    qed
  qed
qed

lemma deleteGlyphs_view:
  "\<not> w \<or> dataScheduledForWriting self = None \<Longrightarrow>
     schedulerView (snd (deleteGlyphs B src w names self)) = schedulerView self"
proof (induction names arbitrary: self)
  case Nil
  show ?case by simp
next
  case (Cons n names)
  let ?s1 = "self\<lparr>localData := lruPop (localData self) (GlyphKey n)\<rparr>"
  show ?case
  proof (cases w)
    case False
    have "\<not> w \<or> dataScheduledForWriting ?s1 = None" using False by simp
    from Cons.IH[OF this] show ?thesis using False by (simp add: Let_def)
  next
    case True
    with Cons.prems have q: "dataScheduledForWriting ?s1 = None" by simp
    obtain r2 s3 where sch: "scheduleDataWrite ?s1 (GlyphKey n) (DeleteGlyph n) src = (r2, s3)"
      by (cases "scheduleDataWrite ?s1 (GlyphKey n) (DeleteGlyph n) src")
    have v3: "schedulerView s3 = schedulerView self"
      using scheduleDataWrite_view_pair[OF q sch] by simp
    then have q3: "\<not> w \<or> dataScheduledForWriting s3 = None"
      using q view_queue[OF v3] by simp
    show ?thesis
      using True sch v3 Cons.IH[OF q3]
      by (cases r2; cases "writable B") (simp_all add: Let_def)
  qed
qed

lemma updateRootKeys_view:
  fixes self :: "('b, 'c) fontHandler"
  shows "\<not> w \<or> dataScheduledForWriting self = None \<Longrightarrow>
     schedulerView (snd (updateRootKeys B ro src w keys self)) = schedulerView self"
proof (induction keys arbitrary: self)
  case Nil
  show ?case by simp
next
  case (Cons k keys)
  have IH: "schedulerView (snd (updateRootKeys B ro src w keys s)) = schedulerView self"
    if "schedulerView s = schedulerView self" for s :: "('b, 'c) fontHandler"
  proof -
    have "\<not> w \<or> dataScheduledForWriting s = None"
      using Cons.prems view_queue[OF that] by auto
    from Cons.IH[OF this] that show ?thesis by simp
  qed
  have pres: "\<not> w \<or> dataScheduledForWriting s = None"
    if "schedulerView s = schedulerView self" for s :: "('b, 'c) fontHandler"
    using Cons.prems view_queue[OF that] by auto
  show ?case
  proof (cases "k = ''glyphs''")
    case True
    show ?thesis
    proof (cases "glyphs ro")
      case None
      with True show ?thesis by simp
    next
      case (Some glyphSet)
      obtain r1 s1 where g: "getData B self ''glyphMap'' = (r1, s1)"
        by (cases "getData B self ''glyphMap''")
      have v1: "schedulerView s1 = schedulerView self"
        using getData_view[of B self "''glyphMap''"] g by simp
      show ?thesis
      proof (cases r1)
        case (Inl e)
        then show ?thesis using True Some g v1 by simp
      next
        case (Inr glyphMap)
        obtain r2 s2 where u: "updateGlyphs B (data glyphSet) (newKeys glyphSet) glyphMap src w
                        (sort (dictKeys (data glyphSet))) s1 = (r2, s2)"
          by (cases "updateGlyphs B (data glyphSet) (newKeys glyphSet) glyphMap src w
                        (sort (dictKeys (data glyphSet))) s1")
        have v2: "schedulerView s2 = schedulerView self"
          using updateGlyphs_view[OF pres[OF v1], of B "data glyphSet" "newKeys glyphSet" glyphMap
              src "sort (dictKeys (data glyphSet))"] u v1 by simp
        show ?thesis
        proof (cases r2)
          case (Inl e)
          then show ?thesis using True Some g Inr u v2 by simp
        next
          case Inr2: (Inr x)
          obtain r3 s3 where d: "deleteGlyphs B src w (sort (deletedKeys glyphSet)) s2 = (r3, s3)"
            by (cases "deleteGlyphs B src w (sort (deletedKeys glyphSet)) s2")
          have v3: "schedulerView s3 = schedulerView self"
            using deleteGlyphs_view[OF pres[OF v2], of B src "sort (deletedKeys glyphSet)"] d v2
            by simp
          show ?thesis
            using True Some g Inr u Inr2 d v3 IH[OF v3] by (cases r3) simp_all
        qed
      qed
    qed
  next
    case False
    obtain r1 s1 where a: "(if k \<in> set (assignedAttributeNames ro) then
                 (case dictGet (attributes ro) k of
                    None \<Rightarrow> (Inl AttributeError, self)
                  | Some value \<Rightarrow>
                      (Inr (), self\<lparr>localData := lruSetItem (localData self) (RootKey k) value\<rparr>))
               else (Inr (), self)) = (r1, s1)"
      by (metis surj_pair)
    have v1: "schedulerView s1 = schedulerView self"
      using a by (auto split: if_splits option.splits)
    show ?thesis
    proof (cases r1)
      case (Inl e)
      then show ?thesis using False v1 by (simp add: a)
    next
      case (Inr x)
      show ?thesis
      proof (cases w)
        case False2: False
        then show ?thesis using \<open>k \<noteq> ''glyphs''\<close> Inr IH[OF v1] by (simp add: a)
      next
        case True
        show ?thesis
        proof (cases "writable B")
          case False3: False
          then show ?thesis using \<open>k \<noteq> ''glyphs''\<close> Inr True v1 by (simp add: a)
        next
          case wr: True
          obtain r2 c where l: "lruGetItem (localData s1) (RootKey k) = (r2, c)"
            by (cases "lruGetItem (localData s1) (RootKey k)")
          show ?thesis
          proof (cases r2)
            case (Inl e)
            then show ?thesis using \<open>k \<noteq> ''glyphs''\<close> Inr True wr l v1 by (simp add: a)
          next
            case Inr2: (Inr val)
            show ?thesis
            proof (cases "deepcopy (store s1) val")
              case None
              then show ?thesis
                using \<open>k \<noteq> ''glyphs''\<close> Inr True wr l Inr2 v1 by (simp add: a)
            next
              case (Some cp)
              obtain valueCopy h where cp: "cp = (valueCopy, h)" by (cases cp)
              let ?s2 = "s1\<lparr>localData := c, store := h\<rparr>"
              obtain r3 s3 where sch:
                "scheduleDataWrite ?s2 (RootKey k) (PutData k valueCopy) src = (r3, s3)"
                by (cases "scheduleDataWrite ?s2 (RootKey k) (PutData k valueCopy) src")
              have q2: "dataScheduledForWriting ?s2 = None"
                using pres[OF v1] True by simp
              have v3: "schedulerView s3 = schedulerView self"
                using scheduleDataWrite_view_pair[OF q2 sch] v1 by simp
              show ?thesis
                using \<open>k \<noteq> ''glyphs''\<close> Inr True wr l Inr2 Some cp sch v3 IH[OF v3]
                by (cases r3) (simp_all add: a)
            qed
          qed
        qed
      qed
    qed
  qed
qed

lemma updateLocalDataAndWriteToBackend'_view:
  assumes "isExternalChange \<or> readOnly self \<or> dataScheduledForWriting self = None"
  shows "schedulerView (snd (updateLocalDataAndWriteToBackend' C B self change src isExternalChange))
           = schedulerView self"
proof -
  have main: "schedulerView (snd (case prepareRootObject C B self change' of
            (Inl e, self1) \<Rightarrow> (Inl e, self1)
          | (Inr (rootKeys, rootObject), self1) \<Rightarrow>
             (case applyChange C rootObject change' (store self1) of
                (Inl e, rootObject', h) \<Rightarrow> (Inl e, self1\<lparr>store := h\<rparr>)
              | (Inr _, rootObject', h) \<Rightarrow>
                  updateLocalData B (self1\<lparr>store := h\<rparr>) rootKeys rootObject' src
                    (\<not> isExternalChange \<and> \<not> readOnly self1)))) = schedulerView self" for change'
  proof -
    obtain r1 s1 where p: "prepareRootObject C B self change' = (r1, s1)"
      by (cases "prepareRootObject C B self change'")
    have v1: "schedulerView s1 = schedulerView self"
      using prepareRootObject_view[of C B self change'] p by simp
    show ?thesis
    proof (cases r1)
      case (Inl e)
      then show ?thesis using p v1 by simp
    next
      case (Inr kr)
      obtain rootKeys rootObject where kr: "kr = (rootKeys, rootObject)" by (cases kr)
      obtain r2 ro' h where ap: "applyChange C rootObject change' (store s1) = (r2, ro', h)"
        by (metis prod_cases3)
      have w: "\<not> (\<not> isExternalChange \<and> \<not> readOnly s1)
                 \<or> dataScheduledForWriting (s1\<lparr>store := h\<rparr>) = None"
        using assms v1 by (auto simp: schedulerView_def)
      have "schedulerView (snd (updateLocalData B (s1\<lparr>store := h\<rparr>) rootKeys ro' src
                    (\<not> isExternalChange \<and> \<not> readOnly s1))) = schedulerView self"
        unfolding updateLocalData_def using updateRootKeys_view[OF w] v1 by simp
      then show ?thesis using p Inr kr ap v1 by (cases r2) simp_all
    qed
  qed
  show ?thesis
    unfolding updateLocalDataAndWriteToBackend'_def
    using main by (auto split: sum.splits option.splits)
qed

lemma editFinal_view:
  assumes "readOnly self \<or> dataScheduledForWriting self = None"
  shows "schedulerView (snd (editFinal C B self ch rb label bc conn)) = schedulerView self"
proof -
  have "schedulerView (snd (updateLocalDataAndWriteToBackend C B self ch conn)) = schedulerView self"
    unfolding updateLocalDataAndWriteToBackend_def
    using assms by (intro updateLocalDataAndWriteToBackend'_view) simp
  then show ?thesis
    by (cases "updateLocalDataAndWriteToBackend C B self ch conn")
       (auto simp: editFinal_def broadcastChange_view split: sum.splits)
qed

lemma dictGet_present: "k \<in> set (dictKeys d) \<Longrightarrow> \<exists>v. dictGet d k = Some v"
  by (induction d) (force simp: dictKeys_def)+

lemma updateGlyphs_no_write:
  "set names \<subseteq> set (dictKeys glyphSet) \<Longrightarrow>
   updateGlyphs B glyphSet new glyphMap src False names self
     = (Inr (), self\<lparr>localData :=
          fold (\<lambda>glyphName c.
                  if glyphName \<in> set new
                  then (case dictGet glyphSet glyphName of
                          None \<Rightarrow> c
                        | Some glyph \<Rightarrow> lruSetItem c (GlyphKey glyphName) glyph)
                  else c)
               names (localData self)\<rparr>)"
proof (induction names arbitrary: self)
  case Nil
  show ?case by simp
next
  case (Cons n names)
  then obtain glyph where g: "dictGet glyphSet n = Some glyph"
    using dictGet_present[of n glyphSet] by auto
  from Cons have sub: "set names \<subseteq> set (dictKeys glyphSet)" by simp
  show ?case
    using Cons.IH[OF sub] g by (simp add: Let_def)
qed

lemma deleteGlyphs_no_write:
  "deleteGlyphs B src False names self
     = (Inr (), self\<lparr>localData :=
          fold (\<lambda>glyphName c. lruPop c (GlyphKey glyphName)) names (localData self)\<rparr>)"
  by (induction names arbitrary: self) (simp_all add: Let_def)

lemma updateRootKeys_no_write_data:
  fixes self :: "('b, 'c) fontHandler"
  shows "''glyphs'' \<notin> set keys \<Longrightarrow>
   set keys \<inter> set (assignedAttributeNames ro) \<subseteq> set (dictKeys (attributes ro)) \<Longrightarrow>
   updateRootKeys B ro src False keys self
     = (Inr (), self\<lparr>localData :=
          fold (\<lambda>rootKey c.
                  if rootKey \<in> set (assignedAttributeNames ro)
                  then (case dictGet (attributes ro) rootKey of
                          None \<Rightarrow> c
                        | Some v \<Rightarrow> lruSetItem c (RootKey rootKey) v)
                  else c)
               keys (localData self)\<rparr>)"
proof (induction keys arbitrary: self)
  case Nil
  show ?case by simp
next
  case (Cons k keys)
  have ex: "\<exists>v. dictGet (attributes ro) k = Some v" if "k \<in> set (assignedAttributeNames ro)"
  proof -
    have "k \<in> set (dictKeys (attributes ro))" using Cons.prems(2) that by auto
    then show ?thesis by (rule dictGet_present)
  qed
  have IH: "updateRootKeys B ro src False keys s
     = (Inr (), s\<lparr>localData :=
          fold (\<lambda>rootKey c.
                  if rootKey \<in> set (assignedAttributeNames ro)
                  then (case dictGet (attributes ro) rootKey of
                          None \<Rightarrow> c
                        | Some v \<Rightarrow> lruSetItem c (RootKey rootKey) v)
                  else c)
               keys (localData s)\<rparr>)" for s :: "('b, 'c) fontHandler"
    using Cons.IH[of s] Cons.prems by auto
  show ?case
    using Cons.prems(1) ex by (auto simp: IH)
qed

lemma view_fields:
  "schedulerView a = schedulerView b \<Longrightarrow>
     dataScheduledForWriting a = dataScheduledForWriting b
   \<and> processWritesError a = processWritesError b
   \<and> processWritesEvent a = processWritesEvent b
   \<and> writingInProgressEvent a = writingInProgressEvent b
   \<and> readOnly a = readOnly b \<and> dummyEditor a = dummyEditor b"
  by (simp add: schedulerView_def)

text \<open>
  Claim C3.  While \<open>readOnly\<close> is set, \<open>editFinal\<close> and \<open>editIncremental\<close> leave the write
  queue and the two events of the write task as they are; an external change does so in
  any mode.  With \<open>dummyEditor\<close> set as well, \<open>isReadOnly\<close> answers false.  Whenever the
  root object has been prepared and the change applied, the flag handed to
  \<open>_updateLocalData\<close> is the negation of \<open>readOnly\<close>, and \<open>editFinal\<close> is that update
  followed, when \<open>broadcast\<close> is set, by \<open>broadcastChange\<close> on the committed tier.  With
  the flag unset the update assigns the new glyphs to the cache and drops the deleted
  ones, and assigns the assigned root values; it changes nothing but the cache.
\<close>

theorem readOnly_no_backend_write:
  fixes self :: "('b, 'c) fontHandler"
  assumes ro: "readOnly self"
  shows "dataScheduledForWriting (snd (editFinal C B self change rollback label broadcast conn))
           = dataScheduledForWriting self
       \<and> processWritesEvent (snd (editFinal C B self change rollback label broadcast conn))
           = processWritesEvent self
       \<and> writingInProgressEvent (snd (editFinal C B self change rollback label broadcast conn))
           = writingInProgressEvent self
       \<and> dataScheduledForWriting (editIncremental C self change conn) = dataScheduledForWriting self
       \<and> (\<forall>s :: ('b, 'c) fontHandler.
             dataScheduledForWriting (snd (updateLocalDataWithExternalChange C B s change))
               = dataScheduledForWriting s)
       \<and> (dummyEditor self \<longrightarrow> \<not> isReadOnly self)
       \<and> (\<forall>(s :: ('b, 'c) fontHandler) s1 rootKeys root root' h.
             prepareRootObject C B s change = (Inr (rootKeys, root), s1)
             \<and> applyChange C root change (store s1) = (Inr (), root', h) \<longrightarrow>
             updateLocalDataAndWriteToBackend C B s change conn
               = updateLocalData B (s1\<lparr>store := h\<rparr>) rootKeys root' conn (\<not> readOnly s))
       \<and> (\<forall>(s :: ('b, 'c) fontHandler) s2.
             updateLocalDataAndWriteToBackend C B s change conn = (Inr (), s2) \<longrightarrow>
             editFinal C B s change rollback label True conn
               = (Inr (), broadcastChange (matchChangePattern C) s2 change conn False)
             \<and> editFinal C B s change rollback label False conn = (Inr (), s2))
       \<and> (\<forall>(s :: ('b, 'c) fontHandler) s1 root glyphSet glyphMap.
             glyphs root = Some glyphSet \<and> assignedAttributeNames root = []
             \<and> getData B s ''glyphMap'' = (Inr glyphMap, s1) \<longrightarrow>
             updateLocalData B s [''glyphs''] root conn False
               = (Inr (), s1\<lparr>localData :=
                    fold (\<lambda>glyphName c. lruPop c (GlyphKey glyphName)) (sort (deletedKeys glyphSet))
                      (fold (\<lambda>glyphName c.
                               if glyphName \<in> set (newKeys glyphSet)
                               then (case dictGet (data glyphSet) glyphName of
                                       None \<Rightarrow> c
                                     | Some glyph \<Rightarrow> lruSetItem c (GlyphKey glyphName) glyph)
                               else c)
                         (sort (dictKeys (data glyphSet))) (localData s1))\<rparr>))
       \<and> (\<forall>(s :: ('b, 'c) fontHandler) root rootKeys.
             ''glyphs'' \<notin> set rootKeys \<and> ''glyphs'' \<notin> set (assignedAttributeNames root)
             \<and> set (assignedAttributeNames root) \<subseteq> set (dictKeys (attributes root)) \<longrightarrow>
             updateLocalData B s rootKeys root conn False
               = (Inr (), s\<lparr>localData :=
                    fold (\<lambda>rootKey c.
                            if rootKey \<in> set (assignedAttributeNames root)
                            then (case dictGet (attributes root) rootKey of
                                    None \<Rightarrow> c
                                  | Some v \<Rightarrow> lruSetItem c (RootKey rootKey) v)
                            else c)
                       (rootKeys @ sort (assignedAttributeNames root)) (localData s)\<rparr>))"
proof -
  have v: "schedulerView (snd (editFinal C B self change rollback label broadcast conn))
             = schedulerView self"
    using ro by (intro editFinal_view) simp
  have c1: "dataScheduledForWriting (snd (editFinal C B self change rollback label broadcast conn))
           = dataScheduledForWriting self
       \<and> processWritesEvent (snd (editFinal C B self change rollback label broadcast conn))
           = processWritesEvent self
       \<and> writingInProgressEvent (snd (editFinal C B self change rollback label broadcast conn))
           = writingInProgressEvent self"
    using view_fields[OF v] by simp
  have c2: "dataScheduledForWriting (editIncremental C self change conn) = dataScheduledForWriting self"
    by (simp add: editIncremental_def broadcastChange_def)
  have c3: "dataScheduledForWriting (snd (updateLocalDataWithExternalChange C B s change))
               = dataScheduledForWriting s" for s :: "('b, 'c) fontHandler"
    unfolding updateLocalDataWithExternalChange_def
    using view_fields[OF updateLocalDataAndWriteToBackend'_view[of True s C B change None]]
    by simp
  have c4: "dummyEditor self \<longrightarrow> \<not> isReadOnly self"
    by (simp add: isReadOnly_def)
  have c5: "updateLocalDataAndWriteToBackend C B s change conn
               = updateLocalData B (s1\<lparr>store := h\<rparr>) rootKeys root' conn (\<not> readOnly s)"
    if "prepareRootObject C B s change = (Inr (rootKeys, root), s1)"
      and "applyChange C root change (store s1) = (Inr (), root', h)"
    for s s1 :: "('b, 'c) fontHandler" and rootKeys root root' h
  proof -
    have "readOnly s1 = readOnly s"
      using view_fields[OF prepareRootObject_view[of C B s change]] that(1) by simp
    then show ?thesis
      using that
      by (simp add: updateLocalDataAndWriteToBackend_def updateLocalDataAndWriteToBackend'_def)
  qed
  have c6: "editFinal C B s change rollback label True conn
               = (Inr (), broadcastChange (matchChangePattern C) s2 change conn False)
             \<and> editFinal C B s change rollback label False conn = (Inr (), s2)"
    if "updateLocalDataAndWriteToBackend C B s change conn = (Inr (), s2)"
    for s s2 :: "('b, 'c) fontHandler"
    using that by (simp add: editFinal_def)
  have c7: "updateLocalData B s [''glyphs''] root conn False
               = (Inr (), s1\<lparr>localData :=
                    fold (\<lambda>glyphName c. lruPop c (GlyphKey glyphName)) (sort (deletedKeys glyphSet))
                      (fold (\<lambda>glyphName c.
                               if glyphName \<in> set (newKeys glyphSet)
                               then (case dictGet (data glyphSet) glyphName of
                                       None \<Rightarrow> c
                                     | Some glyph \<Rightarrow> lruSetItem c (GlyphKey glyphName) glyph)
                               else c)
                         (sort (dictKeys (data glyphSet))) (localData s1))\<rparr>)"
    if "glyphs root = Some glyphSet" "assignedAttributeNames root = []"
      "getData B s ''glyphMap'' = (Inr glyphMap, s1)"
    for s s1 :: "('b, 'c) fontHandler" and root glyphSet glyphMap
  proof -
    have sub: "set (sort (dictKeys (data glyphSet))) \<subseteq> set (dictKeys (data glyphSet))" by simp
    show ?thesis
      using that
      by (simp add: updateLocalData_def updateGlyphs_no_write[OF sub] deleteGlyphs_no_write)
  qed
  have c8: "updateLocalData B s rootKeys root conn False
               = (Inr (), s\<lparr>localData :=
                    fold (\<lambda>rootKey c.
                            if rootKey \<in> set (assignedAttributeNames root)
                            then (case dictGet (attributes root) rootKey of
                                    None \<Rightarrow> c
                                  | Some v \<Rightarrow> lruSetItem c (RootKey rootKey) v)
                            else c)
                       (rootKeys @ sort (assignedAttributeNames root)) (localData s)\<rparr>)"
    if "''glyphs'' \<notin> set rootKeys" "''glyphs'' \<notin> set (assignedAttributeNames root)"
      "set (assignedAttributeNames root) \<subseteq> set (dictKeys (attributes root))"
    for s :: "('b, 'c) fontHandler" and root rootKeys
    unfolding updateLocalData_def
    using that by (intro updateRootKeys_no_write_data) auto
  show ?thesis
    using c1 c2 c3 c4 c5 c6 c7 c8 by blast
qed

lemma demo_edit_readOnly:
  "(let (r, s) = editFinal demoChanges demoBackend demoReadOnly ''edit'' ''undo'' ''label'' True (Some alice)
    in (r, dataScheduledForWriting s, entries (localData s), proxyCalls s, store s ! 5))
   = (Inr (), Some [],
      [(GlyphKey ''A'', PyRef 0), (RootKey ''glyphMap'', PyRef 6), (GlyphKey ''N'', PyRef 8)],
      [ExternalChange bob ''edit'' False],
      PyObject [(''name'', PyStr ''C'')])"
  by code_simp

lemma demo_edit_writable:
  "(let (r, s) = editFinal demoChanges demoBackend demoConnected ''edit'' ''undo'' ''label'' True (Some alice)
    in (r, dataScheduledForWriting s, processWritesEvent s))
   = (Inr (),
      Some [(GlyphKey ''A'', PutGlyph ''A'' (PyRef 10) (PyRef 7), Some alice),
            (GlyphKey ''N'', PutGlyph ''N'' (PyRef 16) (PyRef 18), Some alice)],
      True)"
  by code_simp

theorem readOnly_no_backend_write_witness:
  "readOnly demoReadOnly \<and> dummyEditor demoReadOnly \<and> \<not> isReadOnly demoReadOnly
   \<and> dataScheduledForWriting demoReadOnly = Some []
   \<and> dataScheduledForWriting
        (snd (editFinal demoChanges demoBackend demoReadOnly ''edit'' ''undo'' ''label'' True
                (Some alice))) = Some []
   \<and> entries (localData
        (snd (editFinal demoChanges demoBackend demoReadOnly ''edit'' ''undo'' ''label'' True
                (Some alice))))
       = [(GlyphKey ''A'', PyRef 0), (RootKey ''glyphMap'', PyRef 6), (GlyphKey ''N'', PyRef 8)]
   \<and> proxyCalls
        (snd (editFinal demoChanges demoBackend demoReadOnly ''edit'' ''undo'' ''label'' True
                (Some alice)))
       = [ExternalChange bob ''edit'' False]
   \<and> dataScheduledForWriting
        (snd (editFinal demoChanges demoBackend demoConnected ''edit'' ''undo'' ''label'' True
                (Some alice)))
       = Some [(GlyphKey ''A'', PutGlyph ''A'' (PyRef 10) (PyRef 7), Some alice),
               (GlyphKey ''N'', PutGlyph ''N'' (PyRef 16) (PyRef 18), Some alice)]"
proof -
  have h1: "readOnly demoReadOnly"
    by (simp add: demoReadOnly_def)
  have h2: "dummyEditor demoReadOnly"
    by (simp add: demoReadOnly_def)
  have h3: "dataScheduledForWriting demoReadOnly = Some []"
    by (simp add: demoReadOnly_def demoConnected_eval demoHandler_def startedFontHandler_def)
  note t = readOnly_no_backend_write[OF h1, of demoChanges demoBackend "''edit''" "''undo''"
      "''label''" True "Some alice"]
  have q: "dataScheduledForWriting
        (snd (editFinal demoChanges demoBackend demoReadOnly ''edit'' ''undo'' ''label'' True
                (Some alice))) = Some []"
    using t h3 by simp
  have n: "\<not> isReadOnly demoReadOnly"
    using t h2 by blast
  have e: "entries (localData
        (snd (editFinal demoChanges demoBackend demoReadOnly ''edit'' ''undo'' ''label'' True
                (Some alice))))
       = [(GlyphKey ''A'', PyRef 0), (RootKey ''glyphMap'', PyRef 6), (GlyphKey ''N'', PyRef 8)]"
    using demo_edit_readOnly by (simp add: Let_def split: prod.splits)
  have p: "proxyCalls
        (snd (editFinal demoChanges demoBackend demoReadOnly ''edit'' ''undo'' ''label'' True
                (Some alice)))
       = [ExternalChange bob ''edit'' False]"
    using demo_edit_readOnly by (simp add: Let_def split: prod.splits)
  have w: "dataScheduledForWriting
        (snd (editFinal demoChanges demoBackend demoConnected ''edit'' ''undo'' ''label'' True
                (Some alice)))
       = Some [(GlyphKey ''A'', PutGlyph ''A'' (PyRef 10) (PyRef 7), Some alice),
               (GlyphKey ''N'', PutGlyph ''N'' (PyRef 16) (PyRef 18), Some alice)]"
    using demo_edit_writable by (simp add: Let_def split: prod.splits)
  show ?thesis
    using h1 h2 h3 q n e p w by blast
qed

subsection \<open>Writes that fail\<close>







subsection \<open>Subscribing and unsubscribing\<close>
























lemma wfPattern_patternFromPath: "wfPattern (patternFromPath path)"
  by (induction path rule: patternFromPath.induct) simp_all






subsection \<open>Deep copies\<close>































lemma demo_store_closed: "closedStore demoStore"
  by code_simp


end
